theory Spec2Isabelle
  imports Complex_Main "HOL-Library.Multiset" "HOL-Library.AList" "HOL-Library.Log_Nat"
begin

section \<open>Data model (src/unnamed/part_008, the types module)\<close>

text \<open>
  \<^verbatim>\<open>status: 'Present' | 'Absent' | 'Late'\<close> and \<^verbatim>\<open>role: 'student' | 'faculty'\<close> are
  string-literal unions, hence datatypes.  A JavaScript \<^verbatim>\<open>Date\<close> is modelled by its
  \<^verbatim>\<open>getTime()\<close> value: integer milliseconds since the epoch.  JavaScript numbers that
  hold confidences and the rates shown are modelled as real numbers; where the code
  compares computed rates (the trend), the double-precision arithmetic is modelled.
\<close>

datatype Status = Present | Absent | Late

datatype Role = RoleStudent | RoleFaculty

type_synonym Date = int

record Student =
  idS :: string
  department :: string
  role :: Role

record AttendanceRecord =
  idR :: string
  studentId :: string
  timestamp :: Date
  status :: Status
  confidence :: "real option"

section \<open>Local calendar fields of a Date\<close>

text \<open>
  A time zone gives the offset of local time from UTC in milliseconds, which may change
  with the instant (daylight saving): \<open>offsetAtUtc\<close> for an instant, \<open>offsetAtLocal\<close> for a
  local time, as the language's \<^verbatim>\<open>LocalTime(t)\<close> and \<^verbatim>\<open>UTC(t)\<close> take it.  \<open>toLocal\<close> is the
  local time of an instant, from which the getters read their fields; \<open>fromLocal\<close> is the
  instant of a local time, which the setters return.  \<open>localDay\<close> numbers the local
  calendar days, so two dates have the same \<^verbatim>\<open>toDateString()\<close> exactly when their
  \<open>localDay\<close> is the same; the comparison of two dates after \<^verbatim>\<open>setHours(0, 0, 0, 0)\<close> is
  taken as the same test.  Day 0 (1 January 1970) was a Thursday, day-of-week 4.
\<close>

record TimeZone =
  offsetAtUtc :: "Date \<Rightarrow> int"
  offsetAtLocal :: "int \<Rightarrow> int"

definition toLocal :: "TimeZone \<Rightarrow> Date \<Rightarrow> int" where
  "toLocal tz d = d + offsetAtUtc tz d"

definition fromLocal :: "TimeZone \<Rightarrow> int \<Rightarrow> Date" where
  "fromLocal tz x = x - offsetAtLocal tz x"

text \<open>A zone without daylight saving, and UTC.\<close>

definition fixedZone :: "int \<Rightarrow> TimeZone" where
  "fixedZone off = \<lparr> offsetAtUtc = (\<lambda>d. off), offsetAtLocal = (\<lambda>x. off) \<rparr>"

definition utc :: TimeZone where
  "utc = fixedZone 0"

definition msPerDay :: int where
  "msPerDay = 1000 * 60 * 60 * 24"

definition localDay :: "TimeZone \<Rightarrow> Date \<Rightarrow> int" where
  "localDay tz d = toLocal tz d div msPerDay"

definition getHours :: "TimeZone \<Rightarrow> Date \<Rightarrow> int" where
  "getHours tz d = (toLocal tz d mod msPerDay) div 3600000"

definition getMinutes :: "TimeZone \<Rightarrow> Date \<Rightarrow> int" where
  "getMinutes tz d = (toLocal tz d mod 3600000) div 60000"

definition getDay :: "TimeZone \<Rightarrow> Date \<Rightarrow> int" where
  "getDay tz d = (localDay tz d + 4) mod 7"

section \<open>The record store (src/project/src/utils/database.ts)\<close>

record Database =
  students :: "Student list"
  attendance :: "AttendanceRecord list"

definition getStudents :: "Database \<Rightarrow> Student list" where
  "getStudents db = students db"

definition getAttendanceRecords :: "Database \<Rightarrow> AttendanceRecord list" where
  "getAttendanceRecords db = attendance db"

text \<open>
  \<^verbatim>\<open>markAttendance\<close> appends the record under a freshly generated identifier; the
  random generator is the parameter \<open>newId\<close>.
\<close>

definition markAttendance :: "string \<Rightarrow> AttendanceRecord \<Rightarrow> Database \<Rightarrow> Database" where
  "markAttendance newId r db = db\<lparr>attendance := getAttendanceRecords db @ [r\<lparr>idR := newId\<rparr>]\<rparr>"

text \<open>\<^verbatim>\<open>getTodayAttendance\<close> reads the clock (\<open>now\<close>) and keeps the records of that local day.\<close>

definition getTodayAttendance :: "TimeZone \<Rightarrow> Date \<Rightarrow> Database \<Rightarrow> AttendanceRecord list" where
  "getTodayAttendance tz now db =
     filter (\<lambda>r. localDay tz (timestamp r) = localDay tz now) (getAttendanceRecords db)"

section \<open>Per-student statistics (calculateStudentStats, src/unnamed/part_002)\<close>

datatype Trend = Improving | Declining | Stable

record StudentAttendanceStats =
  student :: Student
  totalClasses :: nat
  attended :: nat
  present :: nat
  late :: nat
  absent :: nat
  attendancePercentage :: real
  trend :: Trend
  lastAttended :: "Date option"
  consecutiveAbsences :: nat

text \<open>
  \<^verbatim>\<open>Math.floor((now.getTime() - new Date(r.timestamp).getTime()) / (1000 * 60 * 60 * 24))\<close>.
  The quotient is taken exactly; the rounded quotient of the doubles has the same floor
  for dates less than \<open>2 ^ 26\<close> days apart.
\<close>

definition daysAgo :: "Date \<Rightarrow> AttendanceRecord \<Rightarrow> int" where
  "daysAgo now r = (now - timestamp r) div msPerDay"

text \<open>\<^verbatim>\<open>xs.length > 0 ? (xs.filter(p).length / xs.length) * 100 : 0\<close>\<close>

definition percentageOf :: "nat \<Rightarrow> nat \<Rightarrow> real" where
  "percentageOf k n = (if n > 0 then (real k / real n) * 100 else 0)"

definition last7Days :: "Date \<Rightarrow> AttendanceRecord list \<Rightarrow> AttendanceRecord list" where
  "last7Days now rs = filter (\<lambda>r. daysAgo now r \<le> 7) rs"

definition previous7Days :: "Date \<Rightarrow> AttendanceRecord list \<Rightarrow> AttendanceRecord list" where
  "previous7Days now rs = filter (\<lambda>r. daysAgo now r > 7 \<and> daysAgo now r \<le> 14) rs"

text \<open>The exact non-absent rate of a window, for comparison with what the code computes.\<close>

definition nonAbsentPercentage :: "AttendanceRecord list \<Rightarrow> real" where
  "nonAbsentPercentage rs =
     percentageOf (length (filter (\<lambda>r. status r \<noteq> Absent) rs)) (length rs)"

subsection \<open>Double-precision arithmetic\<close>

text \<open>
  A double is modelled by the rational number it stands for.  Every arithmetic operation
  of the language returns the double nearest to the exact result, a tie going to the one
  with an even significand of 53 bits.  \<open>binaryExponent x\<close> is the \<open>e\<close> with
  \<open>2 powi e \<le> x\<close> and \<open>x < 2 powi (e + 1)\<close> for a positive \<open>x\<close>.  Overflow and subnormal
  numbers are not modelled: the numbers rounded here are 0 or lie between \<open>2 powi (-32)\<close>
  and 111.  Array lengths are integers below \<open>2 powi 32\<close> and so doubles themselves.
\<close>

definition roundEven :: "rat \<Rightarrow> int" where
  "roundEven m =
     (let f = \<lfloor>m\<rfloor>; d = m - of_int f
      in if d < 1 / 2 then f
         else if d > 1 / 2 then f + 1
         else if even f then f else f + 1)"

definition binaryExponent :: "rat \<Rightarrow> int" where
  "binaryExponent x =
     (let (p, q) = quotient_of x; d = bitlen p - bitlen q
      in if 2 powi d \<le> x then d else d - 1)"

definition roundDouble :: "rat \<Rightarrow> rat" where
  "roundDouble x =
     (if x = 0 then 0
      else let s = binaryExponent \<bar>x\<bar> - 52
           in sgn x * of_int (roundEven (\<bar>x\<bar> / 2 powi s)) * 2 powi s)"

text \<open>The exact percentage as a rational number, for comparison with the doubles.\<close>

definition exactQ :: "nat \<Rightarrow> nat \<Rightarrow> rat" where
  "exactQ k n = (if n > 0 then of_nat k / of_nat n * 100 else 0)"

text \<open>\<^verbatim>\<open>xs.length > 0 ? (xs.filter(p).length / xs.length) * 100 : 0\<close> in doubles.\<close>

definition percentageD :: "nat \<Rightarrow> nat \<Rightarrow> rat" where
  "percentageD k n =
     (if n > 0 then roundDouble (roundDouble (of_nat k / of_nat n) * 100) else 0)"

definition nonAbsentPercentageD :: "AttendanceRecord list \<Rightarrow> rat" where
  "nonAbsentPercentageD rs =
     percentageD (length (filter (\<lambda>r. status r \<noteq> Absent) rs)) (length rs)"

text \<open>
  \<^verbatim>\<open>let trend = 'stable'; if (l > p + 10) trend = 'improving'; if (l < p - 10) trend = 'declining';\<close>
  The two assignments run one after the other; the sum and the difference are rounded.
\<close>

definition classifyTrend :: "rat \<Rightarrow> rat \<Rightarrow> Trend" where
  "classifyTrend last7Percentage previous7Percentage =
     (let t0 = Stable;
          t1 = (if last7Percentage > roundDouble (previous7Percentage + 10)
                then Improving else t0);
          t2 = (if last7Percentage < roundDouble (previous7Percentage - 10)
                then Declining else t1)
      in t2)"

text \<open>
  \<^verbatim>\<open>sort((a, b) => b.timestamp - a.timestamp)\<close>: a stable sort, most recent first.
\<close>

definition sortRecent :: "AttendanceRecord list \<Rightarrow> AttendanceRecord list" where
  "sortRecent rs = sort_key (\<lambda>r. - timestamp r) rs"

text \<open>The \<^verbatim>\<open>for ... of\<close> loop with its counter and its \<^verbatim>\<open>break\<close>.\<close>

fun absenceLoop :: "nat \<Rightarrow> AttendanceRecord list \<Rightarrow> nat" where
  "absenceLoop n [] = n"
| "absenceLoop n (r # rs) = (if status r = Absent then absenceLoop (n + 1) rs else n)"

definition lastAttendedOf :: "AttendanceRecord list \<Rightarrow> Date option" where
  "lastAttendedOf studentRecords =
     (let attendedRecords = sortRecent (filter (\<lambda>r. status r \<noteq> Absent) studentRecords)
      in case attendedRecords of [] \<Rightarrow> None | r # _ \<Rightarrow> Some (timestamp r))"

text \<open>\<^verbatim>\<open>records.filter(r => r.studentId === student.id)\<close>\<close>

definition recordsOf :: "Student \<Rightarrow> AttendanceRecord list \<Rightarrow> AttendanceRecord list" where
  "recordsOf s records = filter (\<lambda>r. studentId r = idS s) records"

definition studentStats :: "Date \<Rightarrow> AttendanceRecord list \<Rightarrow> Student \<Rightarrow> StudentAttendanceStats" where
  "studentStats now records s =
     (let studentRecords = recordsOf s records;
          totalClasses = length studentRecords;
          present = length (filter (\<lambda>r. status r = Present) studentRecords);
          late = length (filter (\<lambda>r. status r = Late) studentRecords);
          absent = length (filter (\<lambda>r. status r = Absent) studentRecords);
          attended = present + late;
          attendancePercentage = percentageOf attended totalClasses;
          last7Percentage = nonAbsentPercentageD (last7Days now studentRecords);
          previous7Percentage = nonAbsentPercentageD (previous7Days now studentRecords);
          sortedRecords = sortRecent studentRecords
      in \<lparr> student = s,
           totalClasses = totalClasses,
           attended = attended,
           present = present,
           late = late,
           absent = absent,
           attendancePercentage = attendancePercentage,
           trend = classifyTrend last7Percentage previous7Percentage,
           lastAttended = lastAttendedOf studentRecords,
           consecutiveAbsences = absenceLoop 0 sortedRecords \<rparr>)"

definition calculateStudentStats ::
  "Date \<Rightarrow> Student list \<Rightarrow> AttendanceRecord list \<Rightarrow> StudentAttendanceStats list" where
  "calculateStudentStats now studs records = map (studentStats now records) studs"

section \<open>Today's session summary (loadTodaySession and calculateStats, src/unnamed/part_001)\<close>

datatype MarkedBy = FaceRecognition | Manual | NoMark

record TodaySessionStudent =
  studentT :: Student
  statusT :: Status
  markedBy :: MarkedBy
  timestampT :: "Date option"
  confidenceT :: "real option"

record SessionStats =
  total :: nat
  recognized :: nat
  notRecognized :: nat
  presentS :: nat
  lateS :: nat
  absentS :: nat
  recognitionRate :: real
  attendanceRate :: real

text \<open>
  \<^verbatim>\<open>todayAttendance.forEach(record => attendanceMap.set(record.studentId, record))\<close>:
  a later record of the same student replaces the earlier one.
\<close>

definition attendanceMapOf :: "AttendanceRecord list \<Rightarrow> (string \<rightharpoonup> AttendanceRecord)" where
  "attendanceMapOf todayAttendance = foldl (\<lambda>m r. m(studentId r \<mapsto> r)) Map.empty todayAttendance"

definition sessionStudent :: "(string \<rightharpoonup> AttendanceRecord) \<Rightarrow> Student \<Rightarrow> TodaySessionStudent" where
  "sessionStudent attendanceMap s =
     (case attendanceMap (idS s) of
        Some record \<Rightarrow>
          \<lparr> studentT = s,
            statusT = status record,
            markedBy = (if confidence record = Some 1 then Manual else FaceRecognition),
            timestampT = Some (timestamp record),
            confidenceT = confidence record \<rparr>
      | None \<Rightarrow>
          \<lparr> studentT = s, statusT = Absent, markedBy = NoMark, timestampT = None,
            confidenceT = None \<rparr>)"

definition calculateStats :: "TodaySessionStudent list \<Rightarrow> SessionStats" where
  "calculateStats data =
     (let total = length data;
          recognized = length (filter (\<lambda>d. markedBy d = FaceRecognition) data);
          notRecognized = length (filter (\<lambda>d. markedBy d = NoMark) data);
          present = length (filter (\<lambda>d. statusT d = Present) data);
          late = length (filter (\<lambda>d. statusT d = Late) data);
          absent = length (filter (\<lambda>d. statusT d = Absent) data);
          recognitionRate = (if total > 0 then (real recognized / real total) * 100 else 0);
          attendanceRate = (if total > 0 then (real (present + late) / real total) * 100 else 0)
      in \<lparr> total = total, recognized = recognized, notRecognized = notRecognized,
           presentS = present, lateS = late, absentS = absent,
           recognitionRate = recognitionRate, attendanceRate = attendanceRate \<rparr>)"

definition sessionStudents :: "TimeZone \<Rightarrow> Date \<Rightarrow> Database \<Rightarrow> TodaySessionStudent list" where
  "sessionStudents tz now db =
     (let allStudents = filter (\<lambda>s. role s = RoleStudent) (getStudents db);
          todayAttendance = getTodayAttendance tz now db;
          attendanceMap = attendanceMapOf todayAttendance
      in map (sessionStudent attendanceMap) allStudents)"

text \<open>\<^verbatim>\<open>loadTodaySession\<close> stores the session data and the statistics computed from it.\<close>

definition loadTodaySession ::
  "TimeZone \<Rightarrow> Date \<Rightarrow> Database \<Rightarrow> TodaySessionStudent list \<times> SessionStats" where
  "loadTodaySession tz now db =
     (let sessionData = sessionStudents tz now db in (sessionData, calculateStats sessionData))"

section \<open>Dashboard (loadDashboardData, src/unnamed/part_000)\<close>

datatype UserType = Faculty | StudentUser

record DashboardStats =
  totalStudents :: nat
  presentToday :: nat
  lateToday :: nat
  absentToday :: int
  attendanceRateD :: real

definition initialStats :: DashboardStats where
  "initialStats = \<lparr> totalStudents = 0, presentToday = 0, lateToday = 0, absentToday = 0,
                    attendanceRateD = 0 \<rparr>"

text \<open>
  The statistics \<^verbatim>\<open>loadDashboardData\<close> sets; when the user type is neither faculty nor
  student nothing is set and the initial statistics stay.  \<^verbatim>\<open>absentToday\<close> is a
  difference of JavaScript numbers and may be negative, hence an integer.
\<close>

definition loadDashboardData :: "UserType option \<Rightarrow> TimeZone \<Rightarrow> Date \<Rightarrow> Database \<Rightarrow> DashboardStats" where
  "loadDashboardData userType tz now db =
     (case userType of
        Some Faculty \<Rightarrow>
          (let studs = getStudents db;
               todayAttendance = getTodayAttendance tz now db;
               presentToday = length (filter (\<lambda>r. status r = Present) todayAttendance);
               lateToday = length (filter (\<lambda>r. status r = Late) todayAttendance);
               absentToday = int (length studs) - (int presentToday + int lateToday)
           in \<lparr> totalStudents = length studs,
                presentToday = presentToday,
                lateToday = lateToday,
                absentToday = absentToday,
                attendanceRateD =
                  (if length studs > 0 then (real presentToday / real (length studs)) * 100
                   else 0) \<rparr>)
      | Some StudentUser \<Rightarrow>
          (let allAttendance = getAttendanceRecords db;
               studentAttendance = filter (\<lambda>record. True) allAttendance;
               todayRecords =
                 filter (\<lambda>r. localDay tz (timestamp r) = localDay tz now) studentAttendance;
               presentCount = length (filter (\<lambda>r. status r = Present) todayRecords);
               totalDays = length studentAttendance
           in \<lparr> totalStudents = 1,
                presentToday = presentCount,
                lateToday = 0,
                absentToday = 0,
                attendanceRateD =
                  (if totalDays > 0
                   then (real (length (filter (\<lambda>r. status r = Present) studentAttendance))
                           / real totalDays) * 100
                   else 0) \<rparr>)
      | None \<Rightarrow> initialStats)"

section \<open>Student analytics (src/project/src/components/StudentAnalytics.tsx)\<close>

text \<open>
  \<^verbatim>\<open>getDayAttendance\<close>: the status of the last of the day's records in the stored order,
  \<^verbatim>\<open>null\<close> when the day has none.
\<close>

definition getDayAttendance :: "TimeZone \<Rightarrow> AttendanceRecord list \<Rightarrow> Date \<Rightarrow> Status option" where
  "getDayAttendance tz attendanceRecords date =
     (let dayRecords =
            filter (\<lambda>r. localDay tz (timestamp r) = localDay tz date) attendanceRecords
      in if length dayRecords = 0 then None
         else Some (status (dayRecords ! (length dayRecords - 1))))"

record WeekData =
  presentW :: nat
  lateW :: nat
  absentW :: nat
  totalW :: nat

text \<open>
  The week key: \<^verbatim>\<open>weekStart.setDate(date.getDate() - date.getDay())\<close> sets the local
  calendar date back by the day-of-week and keeps the local time of day, and
  \<^verbatim>\<open>toISOString().split('T')[0]\<close> is the UTC calendar date of the resulting instant.
  The date string is represented by its day number (days since the epoch, UTC), which
  orders as the strings do.
\<close>

definition weekStart :: "TimeZone \<Rightarrow> Date \<Rightarrow> Date" where
  "weekStart tz date = fromLocal tz (toLocal tz date - getDay tz date * msPerDay)"

definition weekKey :: "TimeZone \<Rightarrow> AttendanceRecord \<Rightarrow> int" where
  "weekKey tz record = weekStart tz (timestamp record) div msPerDay"

definition emptyWeek :: WeekData where
  "emptyWeek = \<lparr> presentW = 0, lateW = 0, absentW = 0, totalW = 0 \<rparr>"

definition countRecord :: "AttendanceRecord \<Rightarrow> WeekData \<Rightarrow> WeekData" where
  "countRecord record weekData =
     (let w = weekData\<lparr>totalW := totalW weekData + 1\<rparr>
      in if status record = Present then w\<lparr>presentW := presentW w + 1\<rparr>
         else if status record = Late then w\<lparr>lateW := lateW w + 1\<rparr>
         else w\<lparr>absentW := absentW w + 1\<rparr>)"

text \<open>
  The \<^verbatim>\<open>Map\<close> keeps its keys in insertion order: an association list in which a new key
  goes to the end and an existing key keeps its place (\<open>AList.update\<close>).  One step of the
  \<^verbatim>\<open>forEach\<close>:
\<close>

definition weekStep :: "TimeZone \<Rightarrow> (int \<times> WeekData) list \<Rightarrow> AttendanceRecord \<Rightarrow> (int \<times> WeekData) list" where
  "weekStep tz weekMap record =
     (let k = weekKey tz record;
          weekMap1 = (if map_of weekMap k = None then AList.update k emptyWeek weekMap
                      else weekMap)
      in case map_of weekMap1 k of
           Some weekData \<Rightarrow> AList.update k (countRecord record weekData) weekMap1
         | None \<Rightarrow> weekMap1)"

definition weekMapOf :: "TimeZone \<Rightarrow> AttendanceRecord list \<Rightarrow> (int \<times> WeekData) list" where
  "weekMapOf tz records = foldl (weekStep tz) [] records"

text \<open>\<^verbatim>\<open>.slice(-8)\<close>: the last eight elements, all of them when there are fewer.\<close>

definition sliceLast :: "nat \<Rightarrow> 'a list \<Rightarrow> 'a list" where
  "sliceLast n xs = drop (length xs - n) xs"

text \<open>
  \<^verbatim>\<open>calculateWeeklyStats\<close>; the label of a bucket (the key read as a date and formatted
  as month and day) is represented by the key itself.
\<close>

definition calculateWeeklyStats :: "TimeZone \<Rightarrow> AttendanceRecord list \<Rightarrow> (int \<times> WeekData) list" where
  "calculateWeeklyStats tz records = rev (sliceLast 8 (weekMapOf tz records))"


section \<open>Attendance marking (src/project/src/components/AttendanceMarking.tsx)\<close>

text \<open>
  The status from the clock, as both marking paths compute it: minutes since local
  midnight against 9:00 plus 15 minutes.
\<close>

definition statusAt :: "TimeZone \<Rightarrow> Date \<Rightarrow> Status" where
  "statusAt tz now =
     (let hour = getHours tz now;
          minute = getMinutes tz now;
          currentTime = hour * 60 + minute;
          lectureStart = 9 * 60;
          lateThreshold = lectureStart + 15
      in if currentTime > lateThreshold then Late else Present)"

text \<open>What the recognizer returns for one face; the recognizer itself is a parameter.\<close>

record DetectedFace =
  studentF :: "Student option"
  confidenceF :: real

datatype ResultStatus = Success | Error

record MarkResult =
  studentM :: "Student option"
  confidenceM :: real
  statusM :: "ResultStatus option"
  message :: string

definition statusName :: "Status \<Rightarrow> string" where
  "statusName st = (case st of Present \<Rightarrow> ''Present'' | Late \<Rightarrow> ''Late'' | Absent \<Rightarrow> ''Absent'')"

text \<open>
  What \<^verbatim>\<open>captureAndRecognize\<close> meets outside the store: whether the video and canvas
  references are set, whether the frame could be captured (the canvas has a 2d context),
  the faces the recognizer returns (\<open>None\<close> when its promise rejects), and whether
  \<^verbatim>\<open>getCurrentLocation\<close> resolves (it rejects when the browser has no geolocation).  The
  promises awaited are taken to settle: the recognizer and the browser answer.
\<close>

record CaptureEnv =
  refsReady :: bool
  imageCaptured :: bool
  facesC :: "DetectedFace list option"
  locationFound :: bool

text \<open>The result the \<^verbatim>\<open>catch\<close> block sets.\<close>

definition failedResult :: MarkResult where
  "failedResult =
     \<lparr> studentM = None, confidenceM = 0, statusM = Some Error,
       message = ''Face recognition failed. Please try again.'' \<rparr>"

text \<open>
  \<^verbatim>\<open>captureAndRecognize\<close>: the result shown and the store afterwards.  \<open>prev\<close> is the
  result shown before the call, which stays when the function returns at once; \<open>now\<close> is
  the clock read after the location is known; \<open>newId\<close> is the identifier the store
  generates for a new record.  Every exception inside the \<^verbatim>\<open>try\<close> ends in the
  \<^verbatim>\<open>catch\<close> block.  The store itself is taken to work.
\<close>

definition captureAndRecognize ::
  "CaptureEnv \<Rightarrow> TimeZone \<Rightarrow> Date \<Rightarrow> string \<Rightarrow> MarkResult \<Rightarrow> Database \<Rightarrow>
   MarkResult \<times> Database" where
  "captureAndRecognize env tz now newId prev db =
     (if \<not> refsReady env then (prev, db)
      else if \<not> imageCaptured env then (failedResult, db)
      else
        case facesC env of
          None \<Rightarrow> (failedResult, db)
        | Some recognizedFaces \<Rightarrow>
            (let recognition =
                   (case recognizedFaces of
                      d # _ \<Rightarrow> (studentF d, confidenceF d)
                    | [] \<Rightarrow> (None, 0))
             in case recognition of
                  (Some st, conf) \<Rightarrow>
                    if conf > 0.75 then
                      (if \<not> locationFound env then (failedResult, db)
                       else
                         (let stat = statusAt tz now;
                              todayAttendance = getTodayAttendance tz now db;
                              alreadyMarked = find (\<lambda>r. studentId r = idS st) todayAttendance
                          in if alreadyMarked \<noteq> None then
                               (\<lparr> studentM = Some st, confidenceM = conf, statusM = Some Error,
                                  message = ''Attendance already marked for today'' \<rparr>, db)
                             else
                               (let attendanceRecord =
                                      \<lparr> idR = newId, studentId = idS st, timestamp = now,
                                        status = stat, confidence = Some conf \<rparr>
                                in (\<lparr> studentM = Some st, confidenceM = conf,
                                      statusM = Some Success,
                                      message = ''Attendance marked successfully! Status: ''
                                                  @ statusName stat \<rparr>,
                                    markAttendance newId attendanceRecord db))))
                    else
                      (\<lparr> studentM = None, confidenceM = conf, statusM = Some Error,
                         message =
                           (if conf > 0
                            then ''Face recognition confidence too low. Please try again.''
                            else ''No matching face found. Please ensure you are registered.'') \<rparr>,
                       db)
                | (None, conf) \<Rightarrow>
                    (\<lparr> studentM = None, confidenceM = conf, statusM = Some Error,
                       message =
                         (if conf > 0
                          then ''Face recognition confidence too low. Please try again.''
                          else ''No matching face found. Please ensure you are registered.'') \<rparr>,
                     db)))"

record MarkedStudent =
  studentK :: Student
  confidenceK :: real
  statusK :: Status

text \<open>
  The loop of \<^verbatim>\<open>processUploadedImage\<close> over the recognized faces.  It reads today's
  attendance from the store anew for every face; \<open>newId\<close> gives the identifier generated
  for a record appended to a store.
\<close>

fun markLoop ::
  "TimeZone \<Rightarrow> Date \<Rightarrow> (Database \<Rightarrow> string) \<Rightarrow> Status \<Rightarrow> DetectedFace list \<Rightarrow>
   MarkedStudent list \<Rightarrow> Database \<Rightarrow> MarkedStudent list \<times> Database" where
  "markLoop tz now newId stat [] markedStudents db = (markedStudents, db)"
| "markLoop tz now newId stat (detected # rest) markedStudents db =
     (case studentF detected of
        Some st \<Rightarrow>
          if confidenceF detected \<ge> 0.75 then
            (let todayAttendance = getTodayAttendance tz now db;
                 alreadyMarked = find (\<lambda>r. studentId r = idS st) todayAttendance;
                 shown = \<lparr> studentK = st, confidenceK = confidenceF detected, statusK = stat \<rparr>
             in if alreadyMarked = None then
                  (let attendanceRecord =
                         \<lparr> idR = newId db, studentId = idS st, timestamp = now, status = stat,
                           confidence = Some (confidenceF detected) \<rparr>
                   in markLoop tz now newId stat rest (markedStudents @ [shown])
                        (markAttendance (newId db) attendanceRecord db))
                else markLoop tz now newId stat rest (markedStudents @ [shown]) db)
          else markLoop tz now newId stat rest markedStudents db
      | None \<Rightarrow> markLoop tz now newId stat rest markedStudents db)"

text \<open>
  What \<^verbatim>\<open>processUploadedImage\<close> meets outside the store: the uploaded image (the empty
  string when there is none) and the faces the recognizer returns (\<open>None\<close> when loading
  the models or the recognizer rejects).
\<close>

record UploadEnv =
  uploadedImage :: string
  facesU :: "DetectedFace list option"

text \<open>
  \<^verbatim>\<open>processUploadedImage\<close>: the students listed, the result status shown and the store
  afterwards.  \<open>prev\<close> is what was listed and shown before the call, which stays when there
  is no uploaded image; otherwise the list is emptied before anything else is done.
\<close>

definition processUploadedImage ::
  "UploadEnv \<Rightarrow> TimeZone \<Rightarrow> Date \<Rightarrow> (Database \<Rightarrow> string) \<Rightarrow>
   MarkedStudent list \<times> ResultStatus option \<Rightarrow> Database \<Rightarrow>
   MarkedStudent list \<times> ResultStatus option \<times> Database" where
  "processUploadedImage env tz now newId prev db =
     (if uploadedImage env = [] then (fst prev, snd prev, db)
      else
        case facesU env of
          None \<Rightarrow> ([], Some Error, db)
        | Some recognizedFaces \<Rightarrow>
            if length recognizedFaces = 0 then ([], Some Error, db)
            else
              (let stat = statusAt tz now;
                   (markedStudents, db') = markLoop tz now newId stat recognizedFaces [] db
               in (markedStudents, Some Success, db')))"

section \<open>The spec's reading of ``last recorded''\<close>

text \<open>
  Follows the spec's words, for comparison with the code: the last-recorded entry of a day
  is the last one in timestamp order, entries with equal timestamps taken in their stored
  order (a stable sort by timestamp, then the last element).
\<close>

definition specLastRecorded :: "AttendanceRecord list \<Rightarrow> AttendanceRecord option" where
  "specLastRecorded dayRecords =
     (case rev (sort_key timestamp dayRecords) of [] \<Rightarrow> None | r # _ \<Rightarrow> Some r)"

section \<open>Example data\<close>

definition studentA :: Student where
  "studentA = \<lparr> idS = ''A'', department = ''CS'', role = RoleStudent \<rparr>"

definition studentB :: Student where
  "studentB = \<lparr> idS = ''B'', department = ''CS'', role = RoleStudent \<rparr>"

definition studentC :: Student where
  "studentC = \<lparr> idS = ''C'', department = ''EE'', role = RoleStudent \<rparr>"

text \<open>An entry of student \<open>sid\<close> at local time \<open>ms\<close> of day \<open>day\<close> (time zone UTC).\<close>

definition entry :: "string \<Rightarrow> string \<Rightarrow> int \<Rightarrow> int \<Rightarrow> Status \<Rightarrow> AttendanceRecord" where
  "entry rid sid day ms st =
     \<lparr> idR = rid, studentId = sid, timestamp = day * 86400000 + ms, status = st,
       confidence = Some 0.9 \<rparr>"

text \<open>Three entries of student A, stored oldest first: Absent, Absent, then Present.\<close>

definition entriesPAA :: "AttendanceRecord list" where
  "entriesPAA = [entry ''r1'' ''A'' 20000 0 Absent, entry ''r2'' ''A'' 20001 0 Absent,
                 entry ''r3'' ''A'' 20002 0 Present]"

text \<open>Three entries of student A, stored oldest first: Present, Absent, then Absent.\<close>

definition entriesAAP :: "AttendanceRecord list" where
  "entriesAAP = [entry ''r1'' ''A'' 20000 0 Present, entry ''r2'' ''A'' 20001 0 Absent,
                 entry ''r3'' ''A'' 20002 0 Absent]"

text \<open>
  The spec's example: people A, B and C; on day 20000 A is recorded Present at 09:02 and B
  Late at 09:20; the clock reads 10:00 of that day.
\<close>

definition exampleNow :: Date where
  "exampleNow = 20000 * 86400000 + 36000000"

definition exampleDb :: Database where
  "exampleDb =
     \<lparr> students = [studentA, studentB, studentC],
       attendance = [entry ''r1'' ''A'' 20000 32520000 Present,
                     entry ''r2'' ''B'' 20000 33600000 Late] \<rparr>"

text \<open>A store whose only entry of the day belongs to a person no longer registered.\<close>

definition danglingDb :: Database where
  "danglingDb =
     \<lparr> students = [studentA],
       attendance = [entry ''r9'' ''X'' 20000 32520000 Present] \<rparr>"

text \<open>The same with two such entries, of two persons no longer registered.\<close>

definition danglingTwoDb :: Database where
  "danglingTwoDb =
     \<lparr> students = [studentA],
       attendance = [entry ''r8'' ''X'' 20000 32520000 Present,
                     entry ''r9'' ''Y'' 20000 32520000 Late] \<rparr>"

text \<open>Two entries of A on day 20000: the one stamped 10:00 is stored before the one stamped 09:00.\<close>

definition entriesOutOfOrder :: "AttendanceRecord list" where
  "entriesOutOfOrder = [entry ''r1'' ''A'' 20000 36000000 Late,
                        entry ''r2'' ''A'' 20000 32400000 Present]"

text \<open>Two entries of A on day 20000, stored in the order of their timestamps.\<close>

definition entriesInOrder :: "AttendanceRecord list" where
  "entriesInOrder = [entry ''r1'' ''A'' 20000 32400000 Present,
                     entry ''r2'' ''A'' 20000 36000000 Late]"


text \<open>
  A zone five and a half hours ahead of UTC, and two entries of A of one local week there,
  stored in chronological order: local Monday 10:00 and local Tuesday 02:00.
\<close>

definition halfPastFive :: TimeZone where
  "halfPastFive = fixedZone 19800000"

definition entriesOneLocalWeek :: "AttendanceRecord list" where
  "entriesOneLocalWeek = [entry ''r1'' ''A'' 19996 16200000 Present,
                          entry ''r2'' ''A'' 19996 73800000 Late]"

text \<open>\<open>n\<close> entries of student A at 09:00 of one day with one status, under distinct identifiers.\<close>

definition entriesOn :: "string \<Rightarrow> int \<Rightarrow> Status \<Rightarrow> nat \<Rightarrow> AttendanceRecord list" where
  "entriesOn tag day st n =
     map (\<lambda>i. entry (tag @ replicate i (CHR ''i'')) ''A'' day 32400000 st) [0..<n]"

text \<open>
  Ten days before the clock of the example 11 entries Present and 4 Absent, on its day 5
  Present and 1 Absent: the exact rates are 73 1/3 and 83 1/3.
\<close>

definition trendEntries :: "AttendanceRecord list" where
  "trendEntries =
     entriesOn ''p'' 19990 Present 11 @ entriesOn ''q'' 19990 Absent 4
       @ entriesOn ''r'' 20000 Present 5 @ entriesOn ''s'' 20000 Absent 1"

text \<open>Two entries Present on the day of the example's clock, and two ten days before.\<close>

definition entriesRecent :: "AttendanceRecord list" where
  "entriesRecent = entriesOn ''u'' 20000 Present 2"

definition entriesPrior :: "AttendanceRecord list" where
  "entriesPrior = entriesOn ''v'' 19990 Present 2"

definition faceA :: DetectedFace where
  "faceA = \<lparr> studentF = Some studentA, confidenceF = 0.9 \<rparr>"

text \<open>
  The camera at work with face A in view, with and without a location; an uploaded image
  showing face A; the result shown before anything was captured.
\<close>

definition cameraEnv :: "bool \<Rightarrow> CaptureEnv" where
  "cameraEnv located =
     \<lparr> refsReady = True, imageCaptured = True, facesC = Some [faceA],
       locationFound = located \<rparr>"

definition uploadEnv :: UploadEnv where
  "uploadEnv = \<lparr> uploadedImage = ''data:image/jpeg;base64,AAAA'', facesU = Some [faceA] \<rparr>"

definition noResult :: MarkResult where
  "noResult = \<lparr> studentM = None, confidenceM = 0, statusM = None, message = [] \<rparr>"

text \<open>An instant 30 seconds after 09:15 on day 20000.\<close>

definition quarterPastAndHalfMinute :: Date where
  "quarterPastAndHalfMinute = 20000 * 86400000 + 33330000"

section \<open>Properties of the per-student statistics\<close>

lemmas zone_simps = localDay_def toLocal_def fromLocal_def utc_def fixedZone_def

lemma absenceLoop_takeWhile:
  "absenceLoop n rs = n + length (takeWhile (\<lambda>r. status r = Absent) rs)"
  by (induction rs arbitrary: n) auto

lemma sortRecent_sorted: "sorted (map (\<lambda>r. - timestamp r) (sortRecent rs))"
  by (simp add: sortRecent_def)

lemma sortRecent_mset: "mset (sortRecent rs) = mset rs"
  by (simp add: sortRecent_def)

lemma sortRecent_set: "set (sortRecent rs) = set rs"
  by (simp add: sortRecent_def)

lemma sortRecent_recent_first:
  "sorted_wrt (\<lambda>a b. timestamp a \<ge> timestamp b) (sortRecent rs)"
proof -
  have "sorted (map (\<lambda>r. - timestamp r) (sortRecent rs))"
    by (rule sortRecent_sorted)
  then show ?thesis
    by (simp add: sorted_map sorted_wrt_iff_nth_less)
qed

lemma sortRecent_head:
  assumes "sortRecent rs = r # rest"
  shows "r \<in> set rs" and "\<forall>x \<in> set rs. timestamp x \<le> timestamp r"
proof -
  have s: "set rs = insert r (set rest)"
    using assms sortRecent_set[of rs] by simp
  then show "r \<in> set rs" by simp
  have "sorted_wrt (\<lambda>a b. timestamp a \<ge> timestamp b) (r # rest)"
    using sortRecent_recent_first[of rs] assms by simp
  then show "\<forall>x \<in> set rs. timestamp x \<le> timestamp r"
    using s by auto
qed

lemma consecutiveAbsences_eq:
  "consecutiveAbsences (studentStats now records s) =
     length (takeWhile (\<lambda>r. status r = Absent) (sortRecent (recordsOf s records)))"
  by (simp add: studentStats_def Let_def absenceLoop_takeWhile)

text \<open>
  Claim C6.  The student's entries are sorted most recent first (a stable sort, so a
  rearrangement of the same entries), and \<open>consecutiveAbsences\<close> is the length of the
  maximal leading run of Absent entries of that list: every entry before that position is
  Absent and the entry at that position, when there is one, is not.  It is 0 when the
  student has no entries and when the most recent entry is not Absent.
\<close>

theorem consecutiveAbsences_leading_run:
  "sorted_wrt (\<lambda>a b. timestamp a \<ge> timestamp b) (sortRecent (recordsOf s records))
   \<and> mset (sortRecent (recordsOf s records)) = mset (recordsOf s records)
   \<and> consecutiveAbsences (studentStats now records s) =
       length (takeWhile (\<lambda>r. status r = Absent) (sortRecent (recordsOf s records)))
   \<and> (\<forall>i < consecutiveAbsences (studentStats now records s).
         status (sortRecent (recordsOf s records) ! i) = Absent)
   \<and> (consecutiveAbsences (studentStats now records s) < length (recordsOf s records) \<longrightarrow>
         status (sortRecent (recordsOf s records) ! consecutiveAbsences (studentStats now records s))
           \<noteq> Absent)
   \<and> (recordsOf s records = [] \<longrightarrow> consecutiveAbsences (studentStats now records s) = 0)
   \<and> (\<forall>r rest. sortRecent (recordsOf s records) = r # rest \<and> status r \<noteq> Absent \<longrightarrow>
         consecutiveAbsences (studentStats now records s) = 0)"
proof -
  let ?xs = "sortRecent (recordsOf s records)"
  let ?n = "consecutiveAbsences (studentStats now records s)"
  have n: "?n = length (takeWhile (\<lambda>r. status r = Absent) ?xs)"
    by (rule consecutiveAbsences_eq)
  have len: "length ?xs = length (recordsOf s records)"
    by (simp add: sortRecent_def)
  have run: "\<forall>i < ?n. status (?xs ! i) = Absent"
    unfolding n using nth_mem[of _ "takeWhile (\<lambda>r. status r = Absent) ?xs"]
    by (metis (mono_tags, lifting) set_takeWhileD takeWhile_nth)
  have stop: "?n < length (recordsOf s records) \<longrightarrow> status (?xs ! ?n) \<noteq> Absent"
    unfolding n len[symmetric] using nth_length_takeWhile[of "\<lambda>r. status r = Absent" ?xs]
    by blast
  have empty: "recordsOf s records = [] \<longrightarrow> ?n = 0"
    unfolding n by (simp add: sortRecent_def)
  have hd: "\<forall>r rest. ?xs = r # rest \<and> status r \<noteq> Absent \<longrightarrow> ?n = 0"
    unfolding n by auto
  show ?thesis
    using sortRecent_recent_first sortRecent_mset n run stop empty hd by blast
qed

theorem consecutiveAbsences_leading_run_witness:
  "consecutiveAbsences (studentStats 0 entriesAAP studentA) = 2
   \<and> status (sortRecent (recordsOf studentA entriesAAP) ! 0) = Absent
   \<and> status (sortRecent (recordsOf studentA entriesAAP) ! 1) = Absent
   \<and> 2 < length (recordsOf studentA entriesAAP)
   \<and> status (sortRecent (recordsOf studentA entriesAAP) ! 2) \<noteq> Absent
   \<and> recordsOf studentA [] = []
   \<and> consecutiveAbsences (studentStats 0 [] studentA) = 0
   \<and> status (hd (sortRecent (recordsOf studentA entriesPAA))) \<noteq> Absent
   \<and> consecutiveAbsences (studentStats 0 entriesPAA studentA) = 0"
  using consecutiveAbsences_leading_run [of studentA entriesAAP 0]
    consecutiveAbsences_leading_run [of studentA "[]" 0]
    consecutiveAbsences_leading_run [of studentA entriesPAA 0]
  by (simp add: sortRecent_def recordsOf_def studentA_def entriesAAP_def entriesPAA_def
      entry_def)

text \<open>
  Claim C7 (as stated).  For the entries Present, Absent, Absent, most recent first, the
  claim gives \<open>consecutiveAbsences = 2\<close>; the loop stops at the first entry, which is
  Present, and the result is 0.
\<close>

theorem consecutiveAbsences_example_counterexample:
  "map status (sortRecent (recordsOf studentA entriesPAA)) = [Present, Absent, Absent]
   \<and> consecutiveAbsences (studentStats 0 entriesPAA studentA) \<noteq> 2"
  by (simp add: consecutiveAbsences_eq sortRecent_def recordsOf_def studentA_def
      entriesPAA_def entry_def)

text \<open>
  Claim C7 (amended).  For a person whose entries, most recent first, are Present, Absent,
  Absent, \<open>consecutiveAbsences\<close> is 0, because the most recent entry is Present; it is 2
  for the entries Absent, Absent, Present, most recent first.
\<close>

theorem consecutiveAbsences_example:
  "(map status (sortRecent (recordsOf s records)) = [Present, Absent, Absent] \<longrightarrow>
      consecutiveAbsences (studentStats now records s) = 0)
   \<and> (map status (sortRecent (recordsOf s records)) = [Absent, Absent, Present] \<longrightarrow>
      consecutiveAbsences (studentStats now records s) = 2)"
proof -
  have "length (takeWhile (\<lambda>r. status r = Absent) xs) =
        length (takeWhile (\<lambda>st. st = Absent) (map status xs))" for xs :: "AttendanceRecord list"
    by (simp add: takeWhile_map comp_def)
  then show ?thesis
    by (simp add: consecutiveAbsences_eq)
qed

theorem consecutiveAbsences_example_witness:
  "map status (sortRecent (recordsOf studentA entriesPAA)) = [Present, Absent, Absent]
   \<and> consecutiveAbsences (studentStats 0 entriesPAA studentA) = 0
   \<and> map status (sortRecent (recordsOf studentA entriesAAP)) = [Absent, Absent, Present]
   \<and> consecutiveAbsences (studentStats 0 entriesAAP studentA) = 2"
proof -
  have a: "map status (sortRecent (recordsOf studentA entriesPAA)) = [Present, Absent, Absent]"
    by (simp add: sortRecent_def recordsOf_def studentA_def entriesPAA_def entry_def)
  have b: "map status (sortRecent (recordsOf studentA entriesAAP)) = [Absent, Absent, Present]"
    by (simp add: sortRecent_def recordsOf_def studentA_def entriesAAP_def entry_def)
  show ?thesis
    using a b consecutiveAbsences_example [of studentA entriesPAA 0]
      consecutiveAbsences_example [of studentA entriesAAP 0]
    by simp
qed

lemma filter_disjoint_length:
  "(\<And>x. \<not> (P x \<and> Q x)) \<Longrightarrow> length (filter P xs) + length (filter Q xs) \<le> length xs"
  by (induction xs) auto

lemma percentageOf_bounds: "k \<le> n \<Longrightarrow> 0 \<le> percentageOf k n \<and> percentageOf k n \<le> 100"
  by (simp add: percentageOf_def divide_le_eq)

lemma lastAttendedOf_Max:
  "lastAttendedOf rs =
     (if filter (\<lambda>r. status r \<noteq> Absent) rs = [] then None
      else Some (Max (timestamp ` set (filter (\<lambda>r. status r \<noteq> Absent) rs))))"
proof (cases "sortRecent (filter (\<lambda>r. status r \<noteq> Absent) rs)")
  case Nil
  then have "filter (\<lambda>r. status r \<noteq> Absent) rs = []"
    using sortRecent_set[of "filter (\<lambda>r. status r \<noteq> Absent) rs"] by simp
  with Nil show ?thesis
    by (simp add: lastAttendedOf_def)
next
  case (Cons r rest)
  let ?as = "filter (\<lambda>r. status r \<noteq> Absent) rs"
  from sortRecent_head[OF Cons]
  have mem: "r \<in> set ?as" and top: "\<forall>x \<in> set ?as. timestamp x \<le> timestamp r"
    by blast+
  have "Max (timestamp ` set ?as) = timestamp r"
    by (rule Max_eqI) (use mem top in auto)
  moreover have "?as \<noteq> []"
    by (metis mem empty_iff empty_set)
  ultimately show ?thesis
    using Cons by (simp add: lastAttendedOf_def)
qed

text \<open>
  Claim C8.  \<open>attendancePercentage\<close> is (present + late) / total observed entries, as a
  percentage, where the counts are those of the person's own entries; it lies between 0
  and 100 and is 0 when the person has no entries.  \<open>lastAttended\<close> is the greatest
  timestamp among the person's non-Absent entries, and null (\<open>None\<close>) when there is none.
\<close>

theorem attendancePercentage_lastAttended:
  "totalClasses (studentStats now records s) = length (recordsOf s records)
   \<and> present (studentStats now records s) =
       length (filter (\<lambda>r. status r = Present) (recordsOf s records))
   \<and> late (studentStats now records s) =
       length (filter (\<lambda>r. status r = Late) (recordsOf s records))
   \<and> attendancePercentage (studentStats now records s) =
       (if recordsOf s records = [] then 0
        else real (present (studentStats now records s) + late (studentStats now records s))
               / real (totalClasses (studentStats now records s)) * 100)
   \<and> 0 \<le> attendancePercentage (studentStats now records s)
   \<and> attendancePercentage (studentStats now records s) \<le> 100
   \<and> lastAttended (studentStats now records s) =
       (if filter (\<lambda>r. status r \<noteq> Absent) (recordsOf s records) = [] then None
        else Some (Max (timestamp ` set (filter (\<lambda>r. status r \<noteq> Absent) (recordsOf s records)))))"
proof -
  let ?rs = "recordsOf s records"
  have le: "length (filter (\<lambda>r. status r = Present) ?rs)
            + length (filter (\<lambda>r. status r = Late) ?rs) \<le> length ?rs"
    by (rule filter_disjoint_length) auto
  have pct: "attendancePercentage (studentStats now records s) =
      percentageOf (length (filter (\<lambda>r. status r = Present) ?rs)
                    + length (filter (\<lambda>r. status r = Late) ?rs)) (length ?rs)"
    by (simp add: studentStats_def Let_def)
  have bounds: "0 \<le> attendancePercentage (studentStats now records s)
                \<and> attendancePercentage (studentStats now records s) \<le> 100"
    unfolding pct by (rule percentageOf_bounds[OF le])
  have la: "lastAttended (studentStats now records s) = lastAttendedOf ?rs"
    by (simp add: studentStats_def Let_def)
  show ?thesis
    using bounds
    by (simp add: la lastAttendedOf_Max)
       (simp add: studentStats_def Let_def percentageOf_def)
qed

lemma div_le_iff_less_mult:
  fixes a d k :: int
  assumes "0 < d"
  shows "a div d \<le> k \<longleftrightarrow> a < (k + 1) * d"
proof -
  define q where "q = a div d"
  define r where "r = a mod d"
  have a: "a = d * q + r"
    by (simp add: q_def r_def)
  have r: "0 \<le> r" "r < d"
    using assms by (simp_all add: r_def)
  have "q \<le> k \<longleftrightarrow> a < (k + 1) * d"
  proof
    assume "q \<le> k"
    then have m: "d * q \<le> d * k"
      using assms by (simp add: mult_left_mono)
    have "(k + 1) * d = d * k + d"
      by (simp add: algebra_simps)
    then show "a < (k + 1) * d"
      using m r a by linarith
  next
    assume less: "a < (k + 1) * d"
    show "q \<le> k"
    proof (rule ccontr)
      assume "\<not> q \<le> k"
      then have "k + 1 \<le> q"
        by simp
      then have m: "d * (k + 1) \<le> d * q"
        using assms by (simp add: mult_left_mono)
      have "(k + 1) * d = d * (k + 1)"
        by simp
      then show False
        using m less r a by linarith
    qed
  qed
  then show ?thesis
    by (simp add: q_def)
qed

lemma daysAgo_le_iff: "daysAgo now r \<le> k \<longleftrightarrow> now - timestamp r < (k + 1) * msPerDay"
  unfolding daysAgo_def by (rule div_le_iff_less_mult) (simp add: msPerDay_def)

lemma roundEven_error: "\<bar>of_int (roundEven m) - m\<bar> \<le> 1 / 2"
proof -
  define f where "f = \<lfloor>m\<rfloor>"
  have f: "of_int f \<le> m" "m < of_int f + 1"
    unfolding f_def by linarith+
  have r: "roundEven m =
      (if m - of_int f < 1 / 2 then f
       else if m - of_int f > 1 / 2 then f + 1
       else if even f then f else f + 1)"
    by (simp add: roundEven_def Let_def f_def)
  show ?thesis
    unfolding r using f by (auto simp: abs_if)
qed

lemma pow_bitlen:
  assumes "0 < a"
  shows "(2::rat) powi (bitlen a - 1) \<le> of_int a" and "of_int a < (2::rat) powi bitlen a"
proof -
  from bitlen_bounds[OF assms]
  have l: "2 ^ nat (bitlen a - 1) \<le> a" and u: "a < 2 ^ nat (bitlen a)"
    by simp_all
  have b: "1 \<le> bitlen a"
    using assms by (simp add: bitlen_alt_def)
  have "(2::rat) powi (bitlen a - 1) = 2 ^ nat (bitlen a - 1)"
    using b by (simp add: power_int_def)
  also have "\<dots> = of_int (2 ^ nat (bitlen a - 1))"
    by simp
  also have "\<dots> \<le> of_int a"
    using l by (simp only: of_int_le_iff)
  finally show "(2::rat) powi (bitlen a - 1) \<le> of_int a" .
  have "of_int a < (of_int (2 ^ nat (bitlen a)) :: rat)"
    using u by (simp only: of_int_less_iff)
  also have "\<dots> = 2 powi bitlen a"
    using b by (simp add: power_int_def)
  finally show "of_int a < (2::rat) powi bitlen a" .
qed

lemma binaryExponent_bounds:
  assumes "0 < x"
  shows "2 powi binaryExponent x \<le> x" and "x < 2 powi (binaryExponent x + 1)"
proof -
  obtain p q where pq: "quotient_of x = (p, q)"
    by (cases "quotient_of x")
  have q: "0 < q"
    using pq by (rule quotient_of_denom_pos)
  have x: "x = of_int p / of_int q"
    using pq by (rule quotient_of_div)
  have p: "0 < p"
    using assms q unfolding x by (simp add: zero_less_divide_iff)
  let ?d = "bitlen p - bitlen q"
  have qr: "(0::rat) < of_int q" using q by simp
  have up: "x < 2 powi (?d + 1)"
  proof -
    have "of_int p < (2::rat) powi bitlen p * 1" using pow_bitlen(2)[OF p] by simp
    also have "\<dots> \<le> 2 powi bitlen p * (of_int q / 2 powi (bitlen q - 1))"
      using pow_bitlen(1)[OF q] by (intro mult_left_mono) (simp_all add: le_divide_eq)
    also have "\<dots> = 2 powi (?d + 1) * of_int q"
      by (simp add: power_int_diff power_int_add field_simps)
    finally show ?thesis
      unfolding x using qr by (simp add: divide_less_eq)
  qed
  have lo: "2 powi (?d - 1) \<le> x"
  proof -
    have "2 powi (?d - 1) * of_int q \<le> 2 powi (?d - 1) * (2::rat) powi bitlen q"
      using pow_bitlen(2)[OF q] by (intro mult_left_mono) simp_all
    also have "\<dots> = 2 powi (bitlen p - 1)"
      by (simp add: power_int_diff power_int_add field_simps)
    also have "\<dots> \<le> of_int p"
      by (rule pow_bitlen(1)[OF p])
    finally show ?thesis
      unfolding x using qr by (simp add: le_divide_eq)
  qed
  have e: "binaryExponent x = (if 2 powi ?d \<le> x then ?d else ?d - 1)"
    by (simp add: binaryExponent_def pq Let_def)
  show "2 powi binaryExponent x \<le> x"
    using lo unfolding e by simp
  show "x < 2 powi (binaryExponent x + 1)"
    using up unfolding e by (simp add: not_le)
qed

lemma roundDouble_error: "\<bar>roundDouble x - x\<bar> \<le> \<bar>x\<bar> / 2 ^ 53"
proof (cases "x = 0")
  case True
  then show ?thesis by (simp add: roundDouble_def)
next
  case False
  then have ax: "0 < \<bar>x\<bar>" by simp
  let ?e = "binaryExponent \<bar>x\<bar>"
  let ?s = "?e - 52"
  let ?m = "\<bar>x\<bar> / 2 powi ?s"
  let ?r = "(of_int (roundEven ?m) :: rat)"
  have ps: "(0::rat) < 2 powi ?s" by simp
  have rd: "roundDouble x = sgn x * ?r * 2 powi ?s"
    using False by (simp add: roundDouble_def Let_def)
  have sx: "sgn x * \<bar>x\<bar> = x"
    by (rule mult_sgn_abs)
  have "sgn x * (?r * 2 powi ?s - \<bar>x\<bar>) = sgn x * ?r * 2 powi ?s - sgn x * \<bar>x\<bar>"
    by (simp add: algebra_simps)
  then have "roundDouble x - x = sgn x * (?r * 2 powi ?s - \<bar>x\<bar>)"
    unfolding rd sx by simp
  then have "\<bar>roundDouble x - x\<bar> = \<bar>?r * 2 powi ?s - \<bar>x\<bar>\<bar>"
    using False by (simp add: abs_mult abs_sgn_eq)
  also have "?r * 2 powi ?s - \<bar>x\<bar> = (?r - ?m) * 2 powi ?s"
    by (simp add: algebra_simps)
  also have "\<bar>(?r - ?m) * 2 powi ?s\<bar> = \<bar>?r - ?m\<bar> * 2 powi ?s"
    by (simp add: abs_mult)
  also have "\<dots> \<le> 1 / 2 * 2 powi ?s"
    using roundEven_error[of ?m] by (intro mult_right_mono) simp_all
  also have "\<dots> = 2 powi ?e / 2 ^ 53"
    by (simp add: power_int_diff)
  also have "\<dots> \<le> \<bar>x\<bar> / 2 ^ 53"
    using binaryExponent_bounds(1)[OF ax] by (simp add: divide_right_mono)
  finally show ?thesis .
qed

lemma roundDouble_near:
  assumes "\<bar>x\<bar> \<le> b"
  shows "\<bar>roundDouble x - x\<bar> \<le> b / 2 ^ 53"
proof -
  have "\<bar>roundDouble x - x\<bar> \<le> \<bar>x\<bar> / 2 ^ 53"
    by (rule roundDouble_error)
  also have "\<dots> \<le> b / 2 ^ 53"
    using assms by (simp add: divide_right_mono)
  finally show ?thesis .
qed

lemma percentageD_error:
  assumes "k \<le> n"
  shows "\<bar>percentageD k n - (if n > 0 then of_nat k / of_nat n * 100 else 0)\<bar> \<le> 201 / 2 ^ 53"
proof (cases "n > 0")
  case False
  then show ?thesis by (simp add: percentageD_def)
next
  case True
  define u :: rat where "u = 1 / 2 ^ 53"
  have u: "0 < u" "u \<le> 1 / 100"
    by (simp_all add: u_def)
  define r :: rat where "r = of_nat k / of_nat n"
  define a where "a = roundDouble r"
  define b where "b = roundDouble (a * 100)"
  have r: "0 \<le> r" "r \<le> 1"
    using assms True by (simp_all add: r_def)
  have "\<bar>a - r\<bar> \<le> u"
    unfolding a_def u_def using r by (intro roundDouble_near) simp
  then have ea: "a - r \<le> u" "r - a \<le> u"
    unfolding abs_le_iff by simp_all
  have a: "\<bar>a * 100\<bar> \<le> 101"
    unfolding abs_le_iff using ea r u by simp
  have "\<bar>b - a * 100\<bar> \<le> 101 / 2 ^ 53"
    unfolding b_def using a by (rule roundDouble_near)
  then have "\<bar>b - a * 100\<bar> \<le> 101 * u"
    by (simp add: u_def)
  then have eb: "b - a * 100 \<le> 101 * u" "a * 100 - b \<le> 101 * u"
    unfolding abs_le_iff by simp_all
  have "\<bar>b - r * 100\<bar> \<le> 201 * u"
    unfolding abs_le_iff using ea eb by simp
  then have "\<bar>b - r * 100\<bar> \<le> 201 / 2 ^ 53"
    by (simp add: u_def)
  then show ?thesis
    using True by (simp add: percentageD_def b_def a_def r_def)
qed

lemma percentageD_range:
  assumes "k \<le> n"
  shows "- 1 \<le> percentageD k n" and "percentageD k n \<le> 101"
proof -
  let ?x = "(if n > 0 then of_nat k / of_nat n * 100 else 0 :: rat)"
  have x: "0 \<le> ?x" "?x \<le> 100"
    using assms by (simp_all add: divide_le_eq)
  have "\<bar>percentageD k n - ?x\<bar> \<le> 1"
    using percentageD_error[OF assms] by (rule order_trans) simp
  then show "- 1 \<le> percentageD k n" and "percentageD k n \<le> 101"
    using x by (simp_all add: abs_le_iff)
qed

lemma threshold_error:
  assumes "- 1 \<le> p" and "p \<le> 101"
  shows "\<bar>roundDouble (p + 10) - (p + 10)\<bar> \<le> 111 / 2 ^ 53"
    and "\<bar>roundDouble (p - 10) - (p - 10)\<bar> \<le> 111 / 2 ^ 53"
  using assms by (intro roundDouble_near; simp add: abs_le_iff)+

lemma thresholds_apart:
  assumes "- 1 \<le> p" and "p \<le> 101"
  shows "roundDouble (p - 10) < roundDouble (p + 10)"
proof -
  have "\<bar>roundDouble (p + 10) - (p + 10)\<bar> \<le> 1"
    using threshold_error(1)[OF assms] by (rule order_trans) simp
  moreover have "\<bar>roundDouble (p - 10) - (p - 10)\<bar> \<le> 1"
    using threshold_error(2)[OF assms] by (rule order_trans) simp
  ultimately show ?thesis
    by linarith
qed

lemma classifyTrend_cases:
  assumes "- 1 \<le> p" and "p \<le> 101"
  shows "classifyTrend l p = Improving \<longleftrightarrow> l > roundDouble (p + 10)"
    and "classifyTrend l p = Declining \<longleftrightarrow> l < roundDouble (p - 10)"
    and "classifyTrend l p = Stable \<longleftrightarrow> \<not> l > roundDouble (p + 10) \<and> \<not> l < roundDouble (p - 10)"
  using thresholds_apart[OF assms] by (auto simp: classifyTrend_def Let_def)

lemma percentageOf_exactQ: "percentageOf k n = of_rat (exactQ k n)"
  by (simp add: percentageOf_def exactQ_def of_rat_divide of_rat_mult)

lemma trend_margin_rat:
  assumes "k1 \<le> n1" and "k2 \<le> n2"
  shows "exactQ k1 n1 > exactQ k2 n2 + 10 + 1 / 10 ^ 13 \<Longrightarrow>
           percentageD k1 n1 > roundDouble (percentageD k2 n2 + 10)"
    and "exactQ k1 n1 < exactQ k2 n2 + 10 - 1 / 10 ^ 13 \<Longrightarrow>
           \<not> percentageD k1 n1 > roundDouble (percentageD k2 n2 + 10)"
    and "exactQ k1 n1 < exactQ k2 n2 - 10 - 1 / 10 ^ 13 \<Longrightarrow>
           percentageD k1 n1 < roundDouble (percentageD k2 n2 - 10)"
    and "exactQ k1 n1 > exactQ k2 n2 - 10 + 1 / 10 ^ 13 \<Longrightarrow>
           \<not> percentageD k1 n1 < roundDouble (percentageD k2 n2 - 10)"
proof -
  define u :: rat where "u = 1 / 2 ^ 53"
  define v :: rat where "v = 1 / 10 ^ 13"
  have uv: "513 * u < v"
    by (simp add: u_def v_def)
  let ?l = "percentageD k1 n1" and ?p = "percentageD k2 n2"
  let ?L = "exactQ k1 n1" and ?P = "exactQ k2 n2"
  have "\<bar>?l - ?L\<bar> \<le> 201 * u"
    using percentageD_error[OF assms(1)] by (simp add: u_def exactQ_def)
  then have el: "?l - ?L \<le> 201 * u" "?L - ?l \<le> 201 * u"
    unfolding abs_le_iff by simp_all
  have "\<bar>?p - ?P\<bar> \<le> 201 * u"
    using percentageD_error[OF assms(2)] by (simp add: u_def exactQ_def)
  then have ep: "?p - ?P \<le> 201 * u" "?P - ?p \<le> 201 * u"
    unfolding abs_le_iff by simp_all
  note rg = percentageD_range[OF assms(2)]
  have "\<bar>roundDouble (?p + 10) - (?p + 10)\<bar> \<le> 111 * u"
    using threshold_error(1)[OF rg] by (simp add: u_def)
  then have tu: "roundDouble (?p + 10) - (?p + 10) \<le> 111 * u"
    "(?p + 10) - roundDouble (?p + 10) \<le> 111 * u"
    unfolding abs_le_iff by simp_all
  have "\<bar>roundDouble (?p - 10) - (?p - 10)\<bar> \<le> 111 * u"
    using threshold_error(2)[OF rg] by (simp add: u_def)
  then have td: "roundDouble (?p - 10) - (?p - 10) \<le> 111 * u"
    "(?p - 10) - roundDouble (?p - 10) \<le> 111 * u"
    unfolding abs_le_iff by simp_all
  show "?L > ?P + 10 + 1 / 10 ^ 13 \<Longrightarrow> ?l > roundDouble (?p + 10)"
    using el ep tu uv unfolding v_def[symmetric] by linarith
  show "?L < ?P + 10 - 1 / 10 ^ 13 \<Longrightarrow> \<not> ?l > roundDouble (?p + 10)"
    using el ep tu uv unfolding v_def[symmetric] by linarith
  show "?L < ?P - 10 - 1 / 10 ^ 13 \<Longrightarrow> ?l < roundDouble (?p - 10)"
    using el ep td uv unfolding v_def[symmetric] by linarith
  show "?L > ?P - 10 + 1 / 10 ^ 13 \<Longrightarrow> \<not> ?l < roundDouble (?p - 10)"
    using el ep td uv unfolding v_def[symmetric] by linarith
qed

lemma trend_margin:
  assumes "k1 \<le> n1" and "k2 \<le> n2"
  shows "percentageOf k1 n1 > percentageOf k2 n2 + 10 + 1 / 10 ^ 13 \<Longrightarrow>
           percentageD k1 n1 > roundDouble (percentageD k2 n2 + 10)"
    and "percentageOf k1 n1 < percentageOf k2 n2 + 10 - 1 / 10 ^ 13 \<Longrightarrow>
           \<not> percentageD k1 n1 > roundDouble (percentageD k2 n2 + 10)"
    and "percentageOf k1 n1 < percentageOf k2 n2 - 10 - 1 / 10 ^ 13 \<Longrightarrow>
           percentageD k1 n1 < roundDouble (percentageD k2 n2 - 10)"
    and "percentageOf k1 n1 > percentageOf k2 n2 - 10 + 1 / 10 ^ 13 \<Longrightarrow>
           \<not> percentageD k1 n1 < roundDouble (percentageD k2 n2 - 10)"
proof -
  have p: "of_rat (exactQ k2 n2) + 10 + 1 / 10 ^ 13 = (of_rat (exactQ k2 n2 + 10 + 1 / 10 ^ 13) :: real)"
    "of_rat (exactQ k2 n2) + 10 - 1 / 10 ^ 13 = (of_rat (exactQ k2 n2 + 10 - 1 / 10 ^ 13) :: real)"
    "of_rat (exactQ k2 n2) - 10 - 1 / 10 ^ 13 = (of_rat (exactQ k2 n2 - 10 - 1 / 10 ^ 13) :: real)"
    "of_rat (exactQ k2 n2) - 10 + 1 / 10 ^ 13 = (of_rat (exactQ k2 n2 - 10 + 1 / 10 ^ 13) :: real)"
    by (simp_all add: of_rat_add of_rat_diff of_rat_divide of_rat_power)
  show "percentageOf k1 n1 > percentageOf k2 n2 + 10 + 1 / 10 ^ 13 \<Longrightarrow>
           percentageD k1 n1 > roundDouble (percentageD k2 n2 + 10)"
    unfolding percentageOf_exactQ p of_rat_less by (rule trend_margin_rat(1)[OF assms])
  show "percentageOf k1 n1 < percentageOf k2 n2 + 10 - 1 / 10 ^ 13 \<Longrightarrow>
           \<not> percentageD k1 n1 > roundDouble (percentageD k2 n2 + 10)"
    unfolding percentageOf_exactQ p of_rat_less by (rule trend_margin_rat(2)[OF assms])
  show "percentageOf k1 n1 < percentageOf k2 n2 - 10 - 1 / 10 ^ 13 \<Longrightarrow>
           percentageD k1 n1 < roundDouble (percentageD k2 n2 - 10)"
    unfolding percentageOf_exactQ p of_rat_less by (rule trend_margin_rat(3)[OF assms])
  show "percentageOf k1 n1 > percentageOf k2 n2 - 10 + 1 / 10 ^ 13 \<Longrightarrow>
           \<not> percentageD k1 n1 < roundDouble (percentageD k2 n2 - 10)"
    unfolding percentageOf_exactQ p of_rat_less by (rule trend_margin_rat(4)[OF assms])
qed

lemma nonAbsent_le: "length (filter (\<lambda>r. status r \<noteq> Absent) w) \<le> length w"
  by simp

lemma trend_eq:
  "trend (studentStats now records s) =
     classifyTrend (nonAbsentPercentageD (last7Days now (recordsOf s records)))
       (nonAbsentPercentageD (previous7Days now (recordsOf s records)))"
  by (simp add: studentStats_def Let_def)

text \<open>
  Claim C4 (amended).  The trend compares the non-absent rate of the recent window (entries
  whose age in whole days is at most 7) with that of the prior window (entries whose age
  in whole days is 8 to 14); an empty window has rate 0.  The rates and the thresholds
  are computed in double-precision arithmetic: the result is improving exactly when the
  computed recent rate is above the computed prior rate plus 10, declining exactly when
  it is below the computed prior rate minus 10, and stable otherwise.  This is the exact
  rule whenever the exact rates differ from a gap of 10 points by more than \<open>10 powi (-13)\<close>.
\<close>

theorem trend_classification:
  "(trend (studentStats now records s) = Improving \<longleftrightarrow>
      nonAbsentPercentageD (last7Days now (recordsOf s records))
        > roundDouble (nonAbsentPercentageD (previous7Days now (recordsOf s records)) + 10))
   \<and> (trend (studentStats now records s) = Declining \<longleftrightarrow>
      nonAbsentPercentageD (last7Days now (recordsOf s records))
        < roundDouble (nonAbsentPercentageD (previous7Days now (recordsOf s records)) - 10))
   \<and> (trend (studentStats now records s) = Stable \<longleftrightarrow>
      \<not> nonAbsentPercentageD (last7Days now (recordsOf s records))
        > roundDouble (nonAbsentPercentageD (previous7Days now (recordsOf s records)) + 10)
      \<and> \<not> nonAbsentPercentageD (last7Days now (recordsOf s records))
        < roundDouble (nonAbsentPercentageD (previous7Days now (recordsOf s records)) - 10))
   \<and> (nonAbsentPercentage (last7Days now (recordsOf s records))
        > nonAbsentPercentage (previous7Days now (recordsOf s records)) + 10 + 1 / 10 ^ 13 \<longrightarrow>
        trend (studentStats now records s) = Improving)
   \<and> (nonAbsentPercentage (last7Days now (recordsOf s records))
        < nonAbsentPercentage (previous7Days now (recordsOf s records)) + 10 - 1 / 10 ^ 13 \<longrightarrow>
        trend (studentStats now records s) \<noteq> Improving)
   \<and> (nonAbsentPercentage (last7Days now (recordsOf s records))
        < nonAbsentPercentage (previous7Days now (recordsOf s records)) - 10 - 1 / 10 ^ 13 \<longrightarrow>
        trend (studentStats now records s) = Declining)
   \<and> (nonAbsentPercentage (last7Days now (recordsOf s records))
        > nonAbsentPercentage (previous7Days now (recordsOf s records)) - 10 + 1 / 10 ^ 13 \<longrightarrow>
        trend (studentStats now records s) \<noteq> Declining)
   \<and> set (last7Days now (recordsOf s records)) =
       {r. r \<in> set (recordsOf s records) \<and> daysAgo now r \<le> 7}
   \<and> set (previous7Days now (recordsOf s records)) =
       {r. r \<in> set (recordsOf s records) \<and> 8 \<le> daysAgo now r \<and> daysAgo now r \<le> 14}
   \<and> (daysAgo now r \<le> 7 \<longleftrightarrow> now - timestamp r < 8 * msPerDay)
   \<and> (8 \<le> daysAgo now r \<and> daysAgo now r \<le> 14 \<longleftrightarrow>
        8 * msPerDay \<le> now - timestamp r \<and> now - timestamp r < 15 * msPerDay)
   \<and> nonAbsentPercentageD w =
       (if w = [] then 0
        else roundDouble (roundDouble (of_nat (length (filter (\<lambda>r. status r \<noteq> Absent) w))
                                         / of_nat (length w)) * 100))
   \<and> nonAbsentPercentage w =
       (if w = [] then 0
        else real (length (filter (\<lambda>r. status r \<noteq> Absent) w)) / real (length w) * 100)"
proof -
  let ?l7 = "last7Days now (recordsOf s records)"
  let ?p7 = "previous7Days now (recordsOf s records)"
  let ?l = "nonAbsentPercentageD ?l7"
  let ?p = "nonAbsentPercentageD ?p7"
  have rg: "- 1 \<le> ?p" "?p \<le> 101"
    unfolding nonAbsentPercentageD_def by (rule percentageD_range[OF nonAbsent_le])+
  note c = classifyTrend_cases[OF rg, of ?l, folded trend_eq]
  note m = trend_margin[OF nonAbsent_le[of ?l7] nonAbsent_le[of ?p7],
      folded nonAbsentPercentage_def nonAbsentPercentageD_def]
  have m1: "nonAbsentPercentage ?l7 > nonAbsentPercentage ?p7 + 10 + 1 / 10 ^ 13 \<longrightarrow>
        trend (studentStats now records s) = Improving"
    unfolding c(1) by (rule impI) (rule m(1))
  have m2: "nonAbsentPercentage ?l7 < nonAbsentPercentage ?p7 + 10 - 1 / 10 ^ 13 \<longrightarrow>
        trend (studentStats now records s) \<noteq> Improving"
    unfolding c(1) by (rule impI) (rule m(2))
  have m3: "nonAbsentPercentage ?l7 < nonAbsentPercentage ?p7 - 10 - 1 / 10 ^ 13 \<longrightarrow>
        trend (studentStats now records s) = Declining"
    unfolding c(2) by (rule impI) (rule m(3))
  have m4: "nonAbsentPercentage ?l7 > nonAbsentPercentage ?p7 - 10 + 1 / 10 ^ 13 \<longrightarrow>
        trend (studentStats now records s) \<noteq> Declining"
    unfolding c(2) by (rule impI) (rule m(4))
  have w1: "set ?l7 = {r. r \<in> set (recordsOf s records) \<and> daysAgo now r \<le> 7}"
    by (auto simp: last7Days_def)
  have w2: "set ?p7 =
       {r. r \<in> set (recordsOf s records) \<and> 8 \<le> daysAgo now r \<and> daysAgo now r \<le> 14}"
    by (auto simp: previous7Days_def)
  have rD: "nonAbsentPercentageD w =
       (if w = [] then 0
        else roundDouble (roundDouble (of_nat (length (filter (\<lambda>r. status r \<noteq> Absent) w))
                                         / of_nat (length w)) * 100))"
    by (simp add: nonAbsentPercentageD_def percentageD_def)
  have rE: "nonAbsentPercentage w =
       (if w = [] then 0
        else real (length (filter (\<lambda>r. status r \<noteq> Absent) w)) / real (length w) * 100)"
    by (simp add: nonAbsentPercentage_def percentageOf_def)
  have a1: "daysAgo now r \<le> 7 \<longleftrightarrow> now - timestamp r < 8 * msPerDay"
    using daysAgo_le_iff[of now r 7] by simp
  have a2: "8 \<le> daysAgo now r \<and> daysAgo now r \<le> 14 \<longleftrightarrow>
        8 * msPerDay \<le> now - timestamp r \<and> now - timestamp r < 15 * msPerDay"
    using daysAgo_le_iff[of now r 7] daysAgo_le_iff[of now r 14] by auto
  show ?thesis
    by (intro conjI c m1 m2 m3 m4 w1 w2 a1 a2 rD rE)
qed

lemma window_rates:
  "nonAbsentPercentage (last7Days exampleNow (recordsOf studentA entriesRecent)) = 100"
  "nonAbsentPercentage (previous7Days exampleNow (recordsOf studentA entriesRecent)) = 0"
  "nonAbsentPercentage (last7Days exampleNow (recordsOf studentA entriesPrior)) = 0"
  "nonAbsentPercentage (previous7Days exampleNow (recordsOf studentA entriesPrior)) = 100"
  "nonAbsentPercentage (last7Days exampleNow (recordsOf studentA [])) = 0"
  "nonAbsentPercentage (previous7Days exampleNow (recordsOf studentA [])) = 0"
  by (simp_all add: nonAbsentPercentage_def percentageOf_def last7Days_def previous7Days_def
      recordsOf_def entriesRecent_def entriesPrior_def entriesOn_def entry_def studentA_def
      exampleNow_def daysAgo_def msPerDay_def upt_conv_Cons)

theorem trend_classification_witness:
  "nonAbsentPercentage (last7Days exampleNow (recordsOf studentA entriesRecent))
     > nonAbsentPercentage (previous7Days exampleNow (recordsOf studentA entriesRecent))
       + 10 + 1 / 10 ^ 13
   \<and> trend (studentStats exampleNow entriesRecent studentA) = Improving
   \<and> nonAbsentPercentage (last7Days exampleNow (recordsOf studentA entriesPrior))
     < nonAbsentPercentage (previous7Days exampleNow (recordsOf studentA entriesPrior))
       - 10 - 1 / 10 ^ 13
   \<and> trend (studentStats exampleNow entriesPrior studentA) = Declining
   \<and> nonAbsentPercentage (last7Days exampleNow (recordsOf studentA []))
     < nonAbsentPercentage (previous7Days exampleNow (recordsOf studentA [])) + 10 - 1 / 10 ^ 13
   \<and> trend (studentStats exampleNow [] studentA) \<noteq> Improving
   \<and> nonAbsentPercentage (last7Days exampleNow (recordsOf studentA []))
     > nonAbsentPercentage (previous7Days exampleNow (recordsOf studentA [])) - 10 + 1 / 10 ^ 13
   \<and> trend (studentStats exampleNow [] studentA) \<noteq> Declining"
proof -
  have h1: "nonAbsentPercentage (last7Days exampleNow (recordsOf studentA entriesRecent))
     > nonAbsentPercentage (previous7Days exampleNow (recordsOf studentA entriesRecent))
       + 10 + 1 / 10 ^ 13"
    by (simp add: window_rates)
  have h3: "nonAbsentPercentage (last7Days exampleNow (recordsOf studentA entriesPrior))
     < nonAbsentPercentage (previous7Days exampleNow (recordsOf studentA entriesPrior))
       - 10 - 1 / 10 ^ 13"
    by (simp add: window_rates)
  have h2: "nonAbsentPercentage (last7Days exampleNow (recordsOf studentA []))
     < nonAbsentPercentage (previous7Days exampleNow (recordsOf studentA [])) + 10 - 1 / 10 ^ 13"
    by (simp add: window_rates)
  have h4: "nonAbsentPercentage (last7Days exampleNow (recordsOf studentA []))
     > nonAbsentPercentage (previous7Days exampleNow (recordsOf studentA [])) - 10 + 1 / 10 ^ 13"
    by (simp add: window_rates)
  note a = trend_classification [where now = exampleNow and records = entriesRecent
      and s = studentA and r = "hd entriesRecent" and w = "[]"]
  note b = trend_classification [where now = exampleNow and records = entriesPrior
      and s = studentA and r = "hd entriesRecent" and w = "[]"]
  note c = trend_classification [where now = exampleNow and records = "[]"
      and s = studentA and r = "hd entriesRecent" and w = "[]"]
  note a' = a[THEN conjunct2, THEN conjunct2, THEN conjunct2]
  note b' = b[THEN conjunct2, THEN conjunct2, THEN conjunct2]
  note c' = c[THEN conjunct2, THEN conjunct2, THEN conjunct2]
  show ?thesis
    by (intro conjI h1 h2 h3 h4
        a'[THEN conjunct1, THEN mp, OF h1]
        b'[THEN conjunct2, THEN conjunct2, THEN conjunct1, THEN mp, OF h3]
        c'[THEN conjunct2, THEN conjunct1, THEN mp, OF h2]
        c'[THEN conjunct2, THEN conjunct2, THEN conjunct2, THEN conjunct1, THEN mp, OF h4])
qed

lemma window_counts:
  "nonAbsentPercentageD (last7Days exampleNow (recordsOf studentA trendEntries)) = percentageD 5 6"
  "nonAbsentPercentageD (previous7Days exampleNow (recordsOf studentA trendEntries)) = percentageD 11 15"
  "nonAbsentPercentage (last7Days exampleNow (recordsOf studentA trendEntries)) = 250 / 3"
  "nonAbsentPercentage (previous7Days exampleNow (recordsOf studentA trendEntries)) = 220 / 3"
  by (simp_all add: nonAbsentPercentageD_def nonAbsentPercentage_def percentageOf_def
      last7Days_def previous7Days_def recordsOf_def trendEntries_def entriesOn_def entry_def
      studentA_def exampleNow_def daysAgo_def msPerDay_def upt_conv_Cons)
    (simp_all add: eval_nat_numeral)

lemma rounded_tie: "classifyTrend (percentageD 5 6) (percentageD 11 15) = Improving"
  by code_simp

text \<open>
  Claim C4 (as stated).  With 5 of 6 entries not absent in the recent window and 11 of 15
  in the prior window the recent rate exceeds the prior rate by 10 points, not by more,
  and the result is improving: \<^verbatim>\<open>(5/6)*100\<close> is 83.33333333333334 in doubles and
  \<^verbatim>\<open>(11/15)*100 + 10\<close> is 83.33333333333333.
\<close>

theorem trend_classification_counterexample:
  "nonAbsentPercentage (last7Days exampleNow (recordsOf studentA trendEntries))
     = nonAbsentPercentage (previous7Days exampleNow (recordsOf studentA trendEntries)) + 10
   \<and> trend (studentStats exampleNow trendEntries studentA) = Improving"
  by (simp add: trend_eq window_counts rounded_tie)

section \<open>Attendance marking and the status of a day\<close>

lemma getTodayAttendance_markAttendance:
  "getTodayAttendance tz now (markAttendance i r db) =
     getTodayAttendance tz now db
       @ (if localDay tz (timestamp r) = localDay tz now then [r\<lparr>idR := i\<rparr>] else [])"
  by (simp add: getTodayAttendance_def markAttendance_def getAttendanceRecords_def)

lemma markLoop_listed:
  "fst (markLoop tz now newId stat faces markedStudents db) =
     markedStudents
       @ map (\<lambda>d. \<lparr> studentK = the (studentF d), confidenceK = confidenceF d, statusK = stat \<rparr>)
           (filter (\<lambda>d. studentF d \<noteq> None \<and> confidenceF d \<ge> 0.75) faces)"
  by (induction faces arbitrary: markedStudents db) (auto simp: Let_def split: option.splits)

lemma markLoop_keeps:
  assumes "\<exists>r \<in> set (getTodayAttendance tz now db). studentId r = idS st"
  shows "students (snd (markLoop tz now newId stat faces markedStudents db)) = students db
     \<and> filter (\<lambda>r. studentId r = idS st)
          (attendance (snd (markLoop tz now newId stat faces markedStudents db)))
        = filter (\<lambda>r. studentId r = idS st) (attendance db)"
  using assms
proof (induction faces arbitrary: markedStudents db)
  case Nil
  then show ?case by simp
next
  case (Cons d faces)
  show ?case
  proof (cases "studentF d")
    case None
    then show ?thesis using Cons by simp
  next
    case (Some st')
    show ?thesis
    proof (cases "confidenceF d \<ge> 0.75
        \<and> find (\<lambda>r. studentId r = idS st') (getTodayAttendance tz now db) = None")
      case False
      then show ?thesis using Cons Some by (auto simp: Let_def)
    next
      case True
      let ?r = "\<lparr> idR = newId db, studentId = idS st', timestamp = now, status = stat,
                  confidence = Some (confidenceF d) \<rparr>"
      let ?db = "markAttendance (newId db) ?r db"
      from True have "\<forall>r \<in> set (getTodayAttendance tz now db). studentId r \<noteq> idS st'"
        by (simp add: find_None_iff)
      with Cons.prems have ne: "idS st' \<noteq> idS st"
        by auto
      have today: "\<exists>r \<in> set (getTodayAttendance tz now ?db). studentId r = idS st"
        using Cons.prems by (auto simp: getTodayAttendance_markAttendance)
      have step: "students ?db = students db
          \<and> filter (\<lambda>r. studentId r = idS st) (attendance ?db)
             = filter (\<lambda>r. studentId r = idS st) (attendance db)"
        using ne by (simp add: markAttendance_def getAttendanceRecords_def)
      have "markLoop tz now newId stat (d # faces) markedStudents db =
            markLoop tz now newId stat faces
              (markedStudents @ [\<lparr> studentK = st', confidenceK = confidenceF d, statusK = stat \<rparr>]) ?db"
        using True Some by (simp add: Let_def)
      then show ?thesis
        using Cons.IH[OF today] step by simp
    qed
  qed
qed

text \<open>
  Claim C10.  When today's stored attendance already holds a record of the recognized
  student, no record is written for that student.  The single-capture path returns the
  store as it was (both collections) and reports an error: ``Attendance already marked
  for today'' when the face was recognized with confidence above 0.75 and the location
  was found, the failure message when the location was not found.  The bulk path leaves
  the students and that student's records as they were, and still lists the student among
  the marked students when the face was recognized with confidence at least 0.75.
\<close>

theorem already_marked_no_new_record:
  assumes "\<exists>r \<in> set (getTodayAttendance tz now db). studentId r = idS st"
  shows "(facesC env = Some (d # rest) \<and> studentF d = Some st \<longrightarrow>
            snd (captureAndRecognize env tz now newId1 prev db) = db)
       \<and> (refsReady env \<and> facesC env = Some (d # rest) \<and> studentF d = Some st \<longrightarrow>
            statusM (fst (captureAndRecognize env tz now newId1 prev db)) = Some Error)
       \<and> (refsReady env \<and> imageCaptured env \<and> facesC env = Some (d # rest)
            \<and> studentF d = Some st \<and> confidenceF d > 0.75 \<and> locationFound env \<longrightarrow>
            captureAndRecognize env tz now newId1 prev db =
              (\<lparr> studentM = Some st, confidenceM = confidenceF d, statusM = Some Error,
                 message = ''Attendance already marked for today'' \<rparr>, db))
       \<and> (refsReady env \<and> imageCaptured env \<and> facesC env = Some (d # rest)
            \<and> studentF d = Some st \<and> confidenceF d > 0.75 \<and> \<not> locationFound env \<longrightarrow>
            captureAndRecognize env tz now newId1 prev db = (failedResult, db))
       \<and> (case processUploadedImage envU tz now newId prevU db of
            (markedStudents, res, db') \<Rightarrow>
              students db' = students db
              \<and> filter (\<lambda>r. studentId r = idS st) (attendance db')
                 = filter (\<lambda>r. studentId r = idS st) (attendance db)
              \<and> (uploadedImage envU \<noteq> [] \<and> facesU envU = Some faces \<longrightarrow>
                   (\<forall>f \<in> set faces. studentF f = Some st \<and> confidenceF f \<ge> 0.75 \<longrightarrow>
                      \<lparr> studentK = st, confidenceK = confidenceF f, statusK = statusAt tz now \<rparr>
                        \<in> set markedStudents)))"
proof -
  have found: "find (\<lambda>r. studentId r = idS st) (getTodayAttendance tz now db) \<noteq> None"
    using assms by (auto simp: find_None_iff)
  have keep: "facesC env = Some (d # rest) \<and> studentF d = Some st \<longrightarrow>
            snd (captureAndRecognize env tz now newId1 prev db) = db"
    using found by (simp add: captureAndRecognize_def Let_def)
  have err: "refsReady env \<and> facesC env = Some (d # rest) \<and> studentF d = Some st \<longrightarrow>
            statusM (fst (captureAndRecognize env tz now newId1 prev db)) = Some Error"
    using found by (simp add: captureAndRecognize_def Let_def failedResult_def)
  have marked: "refsReady env \<and> imageCaptured env \<and> facesC env = Some (d # rest)
            \<and> studentF d = Some st \<and> confidenceF d > 0.75 \<and> locationFound env \<longrightarrow>
            captureAndRecognize env tz now newId1 prev db =
              (\<lparr> studentM = Some st, confidenceM = confidenceF d, statusM = Some Error,
                 message = ''Attendance already marked for today'' \<rparr>, db)"
    using found by (simp add: captureAndRecognize_def Let_def)
  have lost: "refsReady env \<and> imageCaptured env \<and> facesC env = Some (d # rest)
            \<and> studentF d = Some st \<and> confidenceF d > 0.75 \<and> \<not> locationFound env \<longrightarrow>
            captureAndRecognize env tz now newId1 prev db = (failedResult, db)"
    by (simp add: captureAndRecognize_def Let_def)
  have bulk: "case processUploadedImage envU tz now newId prevU db of
            (markedStudents, res, db') \<Rightarrow>
              students db' = students db
              \<and> filter (\<lambda>r. studentId r = idS st) (attendance db')
                 = filter (\<lambda>r. studentId r = idS st) (attendance db)
              \<and> (uploadedImage envU \<noteq> [] \<and> facesU envU = Some faces \<longrightarrow>
                   (\<forall>f \<in> set faces. studentF f = Some st \<and> confidenceF f \<ge> 0.75 \<longrightarrow>
                      \<lparr> studentK = st, confidenceK = confidenceF f, statusK = statusAt tz now \<rparr>
                        \<in> set markedStudents))"
  proof (cases "uploadedImage envU \<noteq> [] \<and> (\<exists>fs. facesU envU = Some fs \<and> fs \<noteq> [])")
    case False
    then show ?thesis
      by (auto simp: processUploadedImage_def split: option.splits)
  next
    case True
    then obtain fs where fs: "facesU envU = Some fs" "fs \<noteq> []" and up: "uploadedImage envU \<noteq> []"
      by blast
    obtain ms db' where ml: "markLoop tz now newId (statusAt tz now) fs [] db = (ms, db')"
      by (cases "markLoop tz now newId (statusAt tz now) fs [] db")
    have k: "students db' = students db
         \<and> filter (\<lambda>r. studentId r = idS st) (attendance db')
            = filter (\<lambda>r. studentId r = idS st) (attendance db)"
      using markLoop_keeps[OF assms, of newId "statusAt tz now" fs "[]"] ml by simp
    have l: "ms = map (\<lambda>d. \<lparr> studentK = the (studentF d), confidenceK = confidenceF d,
                              statusK = statusAt tz now \<rparr>)
                  (filter (\<lambda>d. studentF d \<noteq> None \<and> confidenceF d \<ge> 0.75) fs)"
      using markLoop_listed[of tz now newId "statusAt tz now" fs "[]" db] ml by simp
    have "\<forall>f \<in> set fs. studentF f = Some st \<and> confidenceF f \<ge> 0.75 \<longrightarrow>
            \<lparr> studentK = st, confidenceK = confidenceF f, statusK = statusAt tz now \<rparr> \<in> set ms"
      unfolding l by force
    then show ?thesis
      using fs up k ml by (simp add: processUploadedImage_def Let_def)
  qed
  show ?thesis
    by (intro conjI keep err marked lost bulk)
qed

theorem already_marked_no_new_record_witness:
  "(\<exists>r \<in> set (getTodayAttendance utc exampleNow exampleDb). studentId r = idS studentA)
   \<and> captureAndRecognize (cameraEnv True) utc exampleNow ''n1'' noResult exampleDb =
       (\<lparr> studentM = Some studentA, confidenceM = 0.9, statusM = Some Error,
          message = ''Attendance already marked for today'' \<rparr>, exampleDb)
   \<and> captureAndRecognize (cameraEnv False) utc exampleNow ''n1'' noResult exampleDb =
       (failedResult, exampleDb)
   \<and> processUploadedImage uploadEnv utc exampleNow (\<lambda>db. ''n1'') ([], None) exampleDb =
       ([\<lparr> studentK = studentA, confidenceK = 0.9, statusK = Late \<rparr>], Some Success, exampleDb)"
proof -
  have h: "\<exists>r \<in> set (getTodayAttendance utc exampleNow exampleDb). studentId r = idS studentA"
    by (simp add: getTodayAttendance_def getAttendanceRecords_def exampleDb_def exampleNow_def
        entry_def zone_simps msPerDay_def studentA_def)
  have m: "processUploadedImage uploadEnv utc exampleNow (\<lambda>db. ''n1'') ([], None) exampleDb =
       ([\<lparr> studentK = studentA, confidenceK = 0.9, statusK = Late \<rparr>], Some Success, exampleDb)"
    by (simp add: processUploadedImage_def uploadEnv_def statusAt_def getHours_def
        getMinutes_def faceA_def getTodayAttendance_def getAttendanceRecords_def exampleDb_def
        exampleNow_def entry_def zone_simps msPerDay_def
        studentA_def)
  note t1 = already_marked_no_new_record [OF h, where env = "cameraEnv True" and d = faceA
      and rest = "[]" and ?newId1.0 = "''n1''" and prev = noResult and envU = uploadEnv
      and newId = "\<lambda>db. ''n1''" and prevU = "([], None)" and faces = "[faceA]"]
  note t2 = already_marked_no_new_record [OF h, where env = "cameraEnv False" and d = faceA
      and rest = "[]" and ?newId1.0 = "''n1''" and prev = noResult and envU = uploadEnv
      and newId = "\<lambda>db. ''n1''" and prevU = "([], None)" and faces = "[faceA]"]
  have a: "captureAndRecognize (cameraEnv True) utc exampleNow ''n1'' noResult exampleDb =
       (\<lparr> studentM = Some studentA, confidenceM = 0.9, statusM = Some Error,
          message = ''Attendance already marked for today'' \<rparr>, exampleDb)"
    using t1[THEN conjunct2, THEN conjunct2, THEN conjunct1]
    by (simp add: cameraEnv_def faceA_def)
  have b: "captureAndRecognize (cameraEnv False) utc exampleNow ''n1'' noResult exampleDb =
       (failedResult, exampleDb)"
    using t2[THEN conjunct2, THEN conjunct2, THEN conjunct2, THEN conjunct1]
    by (simp add: cameraEnv_def faceA_def)
  show ?thesis
    by (intro conjI h a b m)
qed

lemma attendanceMap_foldl:
  "foldl (\<lambda>m r. m(studentId r \<mapsto> r)) m rs k =
     (if filter (\<lambda>r. studentId r = k) rs = [] then m k
      else Some (last (filter (\<lambda>r. studentId r = k) rs)))"
  by (induction rs arbitrary: m) auto

lemma attendanceMapOf_last:
  "attendanceMapOf rs k =
     (if filter (\<lambda>r. studentId r = k) rs = [] then None
      else Some (last (filter (\<lambda>r. studentId r = k) rs)))"
  by (simp add: attendanceMapOf_def attendanceMap_foldl)

lemma specLastRecorded_sorted:
  "sorted (map timestamp xs) \<Longrightarrow>
     specLastRecorded xs = (if xs = [] then None else Some (last xs))"
  by (cases xs rule: rev_cases) (simp_all add: specLastRecorded_def sort_key_id_if_sorted)

text \<open>
  Claim C5 (amended).  For a person with more than one entry on the same calendar day, the
  day's status is that of the entry that comes last in the stored order among that day's
  entries, in the calendar view (\<open>getDayAttendance\<close>) and in today's session summary;
  timestamps are not compared.  When the entries concerned are stored in the order of
  their timestamps, this is the last-recorded entry in timestamp order.
\<close>

theorem day_status_last_stored:
  "getDayAttendance tz rs date =
     (if filter (\<lambda>r. localDay tz (timestamp r) = localDay tz date) rs = [] then None
      else Some (status (last (filter (\<lambda>r. localDay tz (timestamp r) = localDay tz date) rs))))
   \<and> statusT (sessionStudent (attendanceMapOf today) s) =
       (if filter (\<lambda>r. studentId r = idS s) today = [] then Absent
        else status (last (filter (\<lambda>r. studentId r = idS s) today)))
   \<and> (sorted (map timestamp (filter (\<lambda>r. localDay tz (timestamp r) = localDay tz date) rs)) \<longrightarrow>
        getDayAttendance tz rs date =
          map_option status
            (specLastRecorded (filter (\<lambda>r. localDay tz (timestamp r) = localDay tz date) rs)))
   \<and> (sorted (map timestamp (filter (\<lambda>r. studentId r = idS s) today))
        \<and> filter (\<lambda>r. studentId r = idS s) today \<noteq> [] \<longrightarrow>
        Some (statusT (sessionStudent (attendanceMapOf today) s)) =
          map_option status (specLastRecorded (filter (\<lambda>r. studentId r = idS s) today)))"
proof -
  let ?day = "filter (\<lambda>r. localDay tz (timestamp r) = localDay tz date) rs"
  let ?mine = "filter (\<lambda>r. studentId r = idS s) today"
  have g: "getDayAttendance tz rs date = (if ?day = [] then None else Some (status (last ?day)))"
    by (simp add: getDayAttendance_def Let_def last_conv_nth)
  have t: "statusT (sessionStudent (attendanceMapOf today) s) =
       (if ?mine = [] then Absent else status (last ?mine))"
    by (simp add: sessionStudent_def attendanceMapOf_last)
  show ?thesis
    unfolding g t by (simp add: specLastRecorded_sorted)
qed

theorem day_status_last_stored_witness:
  "sorted (map timestamp
      (filter (\<lambda>r. localDay utc (timestamp r) = localDay utc exampleNow) entriesInOrder))
   \<and> getDayAttendance utc entriesInOrder exampleNow = Some Late
   \<and> map_option status (specLastRecorded
        (filter (\<lambda>r. localDay utc (timestamp r) = localDay utc exampleNow) entriesInOrder)) = Some Late
   \<and> sorted (map timestamp (filter (\<lambda>r. studentId r = idS studentA) entriesInOrder))
   \<and> filter (\<lambda>r. studentId r = idS studentA) entriesInOrder \<noteq> []
   \<and> statusT (sessionStudent (attendanceMapOf entriesInOrder) studentA) = Late"
proof -
  have a: "sorted (map timestamp
      (filter (\<lambda>r. localDay utc (timestamp r) = localDay utc exampleNow) entriesInOrder))"
    by (simp add: entriesInOrder_def entry_def exampleNow_def zone_simps msPerDay_def)
  have b: "sorted (map timestamp (filter (\<lambda>r. studentId r = idS studentA) entriesInOrder))
      \<and> filter (\<lambda>r. studentId r = idS studentA) entriesInOrder \<noteq> []"
    by (simp add: entriesInOrder_def entry_def studentA_def)
  show ?thesis
    using a b day_status_last_stored [of utc entriesInOrder exampleNow entriesInOrder studentA]
    by (simp add: entriesInOrder_def entry_def exampleNow_def zone_simps msPerDay_def
        studentA_def getDayAttendance_def sessionStudent_def attendanceMapOf_def
        specLastRecorded_def)
qed

text \<open>
  Claim C5 (as stated).  Of two entries of the same person on the same day, the one stamped
  10:00 (Late) stored before the one stamped 09:00 (Present), the last-recorded entry in
  timestamp order is the Late one; the code takes the last stored one, Present.
\<close>

theorem day_status_last_stored_counterexample:
  "map_option status (specLastRecorded
      (filter (\<lambda>r. localDay utc (timestamp r) = localDay utc exampleNow) entriesOutOfOrder)) = Some Late
   \<and> getDayAttendance utc entriesOutOfOrder exampleNow = Some Present
   \<and> map_option status (specLastRecorded
        (filter (\<lambda>r. studentId r = idS studentA) entriesOutOfOrder)) = Some Late
   \<and> statusT (sessionStudent (attendanceMapOf entriesOutOfOrder) studentA) = Present"
  by (simp add: specLastRecorded_def getDayAttendance_def sessionStudent_def attendanceMapOf_def
      entriesOutOfOrder_def entry_def exampleNow_def zone_simps msPerDay_def studentA_def)

lemma minutes_of_day:
  fixes x :: int
  shows "((x mod 86400000) div 3600000) * 60 + (x mod 3600000) div 60000
           = (x mod 86400000) div 60000"
proof -
  define y where "y = x mod 86400000"
  have xy: "x mod 3600000 = y mod 3600000"
    unfolding y_def by (simp add: mod_mod_cancel)
  define h where "h = y div 3600000"
  define u where "u = y mod 3600000"
  define m where "m = u div 60000"
  define v where "v = u mod 60000"
  have y: "y = 3600000 * h + u" by (simp add: h_def u_def)
  have u: "u = 60000 * m + v" by (simp add: m_def v_def)
  have v: "0 \<le> v" "v < 60000" by (simp_all add: v_def)
  have "y = 60000 * (h * 60 + m) + v"
    using y u by simp
  then have "y div 60000 = h * 60 + m"
    using v by simp
  then show ?thesis
    by (simp add: xy h_def m_def u_def y_def)
qed

lemma statusAt_minutes:
  "statusAt tz now = (if getHours tz now * 60 + getMinutes tz now \<le> 9 * 60 + 15 then Present else Late)"
  by (simp add: statusAt_def Let_def not_less)

lemma statusAt_Present_iff:
  "statusAt tz now = Present \<longleftrightarrow> toLocal tz now mod msPerDay < 556 * 60000"
proof -
  let ?y = "toLocal tz now mod 86400000"
  have c: "getHours tz now * 60 + getMinutes tz now = ?y div 60000"
    using minutes_of_day[of "toLocal tz now"] by (simp add: getHours_def getMinutes_def msPerDay_def)
  have e: "?y div 60000 \<le> 555 \<longleftrightarrow> ?y < 556 * 60000"
    using div_le_iff_less_mult[of 60000 ?y 555] by simp
  have "statusAt tz now = Present \<longleftrightarrow> ?y div 60000 \<le> 555"
    unfolding statusAt_minutes c by simp
  then show ?thesis
    unfolding e msPerDay_def by simp
qed


lemma recordsOf_retimed:
  "recordsOf s (map (\<lambda>r. r\<lparr>timestamp := g r\<rparr>) records) =
     map (\<lambda>r. r\<lparr>timestamp := g r\<rparr>) (recordsOf s records)"
  by (simp add: recordsOf_def filter_map comp_def)

lemma captureAndRecognize_store:
  "attendance (snd (captureAndRecognize env tz now newId prev db)) = attendance db
   \<or> (\<exists>sid conf. attendance (snd (captureAndRecognize env tz now newId prev db)) =
         attendance db @ [\<lparr> idR = newId, studentId = sid, timestamp = now,
                            status = statusAt tz now, confidence = Some conf \<rparr>])"
  by (auto simp: captureAndRecognize_def Let_def markAttendance_def getAttendanceRecords_def
      split: list.splits option.splits)

lemma today_retimed:
  assumes "\<forall>r \<in> set (attendance db). localDay tz (g r) = localDay tz (timestamp r)"
  shows "getTodayAttendance tz now (db\<lparr>attendance := map (\<lambda>r. r\<lparr>timestamp := g r\<rparr>) (attendance db)\<rparr>)
         = map (\<lambda>r. r\<lparr>timestamp := g r\<rparr>) (getTodayAttendance tz now db)"
proof -
  have "filter (\<lambda>r. localDay tz (g r) = localDay tz now) (attendance db)
        = filter (\<lambda>r. localDay tz (timestamp r) = localDay tz now) (attendance db)"
    using assms by (intro filter_cong) auto
  then show ?thesis
    by (simp add: getTodayAttendance_def getAttendanceRecords_def filter_map comp_def)
qed

lemma sessionStudent_retimed:
  "statusT (sessionStudent (attendanceMapOf (map (\<lambda>r. r\<lparr>timestamp := g r\<rparr>) today)) s)
     = statusT (sessionStudent (attendanceMapOf today) s)
   \<and> markedBy (sessionStudent (attendanceMapOf (map (\<lambda>r. r\<lparr>timestamp := g r\<rparr>) today)) s)
     = markedBy (sessionStudent (attendanceMapOf today) s)"
proof -
  let ?u = "\<lambda>r. r\<lparr>timestamp := g r\<rparr>"
  have f: "filter (\<lambda>r. studentId r = idS s) (map ?u today)
           = map ?u (filter (\<lambda>r. studentId r = idS s) today)"
    by (simp add: filter_map comp_def)
  show ?thesis
    by (simp add: sessionStudent_def attendanceMapOf_last f last_map)
qed

lemma calculateStats_cong:
  assumes "map statusT d1 = map statusT d2" and "map markedBy d1 = map markedBy d2"
  shows "calculateStats d1 = calculateStats d2"
proof -
  have s: "length (filter (\<lambda>d. statusT d = x) ds) = length (filter (\<lambda>y. y = x) (map statusT ds))"
    for x and ds :: "TodaySessionStudent list"
    by (simp add: filter_map comp_def)
  have m: "length (filter (\<lambda>d. markedBy d = x) ds) = length (filter (\<lambda>y. y = x) (map markedBy ds))"
    for x and ds :: "TodaySessionStudent list"
    by (simp add: filter_map comp_def)
  have l: "length d1 = length d2"
    using assms(1) by (rule map_eq_imp_length_eq)
  show ?thesis
    unfolding calculateStats_def Let_def s m assms l by (rule refl)
qed

lemma summaries_retimed:
  assumes "\<forall>r \<in> set (attendance db). localDay tz (g r) = localDay tz (timestamp r)"
  shows "loadDashboardData (Some Faculty) tz now
           (db\<lparr>attendance := map (\<lambda>r. r\<lparr>timestamp := g r\<rparr>) (attendance db)\<rparr>)
         = loadDashboardData (Some Faculty) tz now db"
    and "snd (loadTodaySession tz now
           (db\<lparr>attendance := map (\<lambda>r. r\<lparr>timestamp := g r\<rparr>) (attendance db)\<rparr>))
         = snd (loadTodaySession tz now db)"
proof -
  let ?db = "db\<lparr>attendance := map (\<lambda>r. r\<lparr>timestamp := g r\<rparr>) (attendance db)\<rparr>"
  note t = today_retimed[OF assms, of now]
  show "loadDashboardData (Some Faculty) tz now ?db = loadDashboardData (Some Faculty) tz now db"
    by (simp add: loadDashboardData_def Let_def t filter_map comp_def getStudents_def)
  have "map statusT (sessionStudents tz now ?db) = map statusT (sessionStudents tz now db)"
    "map markedBy (sessionStudents tz now ?db) = map markedBy (sessionStudents tz now db)"
    by (simp_all add: sessionStudents_def Let_def t getStudents_def sessionStudent_retimed)
  then have "calculateStats (sessionStudents tz now ?db) = calculateStats (sessionStudents tz now db)"
    by (rule calculateStats_cong)
  then show "snd (loadTodaySession tz now ?db) = snd (loadTodaySession tz now db)"
    by (simp add: loadTodaySession_def Let_def)
qed

text \<open>
  Claim C2 (amended).  The Present/Late status is fixed when the entry is created: with
  start 09:00 and 15 minutes of grace the status is Present exactly when the hour and
  minute of the observation (its seconds dropped) are at or before 09:15, that is when
  the observation is before 09:16:00, and Late otherwise; the record written carries that
  status with the timestamp.  The aggregation reads the stored status and never derives it
  from the timestamp: replacing the timestamps of the records by any others changes none
  of the per-person counts nor the percentage, and replacing them by others of the same
  calendar day changes neither the dashboard's statistics nor those of today's session.
\<close>

theorem status_fixed_at_creation:
  "(statusAt tz now = Present \<longleftrightarrow> getHours tz now * 60 + getMinutes tz now \<le> 9 * 60 + 15)
   \<and> (statusAt tz now = Present \<longleftrightarrow> toLocal tz now mod msPerDay < (9 * 60 + 16) * 60000)
   \<and> (statusAt tz now = Late \<longleftrightarrow> statusAt tz now \<noteq> Present)
   \<and> (attendance (snd (captureAndRecognize env tz now newId prev db)) = attendance db
       \<or> (\<exists>sid conf. attendance (snd (captureAndRecognize env tz now newId prev db)) =
             attendance db @ [\<lparr> idR = newId, studentId = sid, timestamp = now,
                                status = statusAt tz now, confidence = Some conf \<rparr>]))
   \<and> totalClasses (studentStats clock (map (\<lambda>r. r\<lparr>timestamp := g r\<rparr>) records) s) =
       totalClasses (studentStats clock records s)
   \<and> present (studentStats clock (map (\<lambda>r. r\<lparr>timestamp := g r\<rparr>) records) s) =
       present (studentStats clock records s)
   \<and> late (studentStats clock (map (\<lambda>r. r\<lparr>timestamp := g r\<rparr>) records) s) =
       late (studentStats clock records s)
   \<and> absent (studentStats clock (map (\<lambda>r. r\<lparr>timestamp := g r\<rparr>) records) s) =
       absent (studentStats clock records s)
   \<and> attendancePercentage (studentStats clock (map (\<lambda>r. r\<lparr>timestamp := g r\<rparr>) records) s) =
       attendancePercentage (studentStats clock records s)
   \<and> ((\<forall>r \<in> set (attendance db). localDay tz (g r) = localDay tz (timestamp r)) \<longrightarrow>
        loadDashboardData (Some Faculty) tz now
            (db\<lparr>attendance := map (\<lambda>r. r\<lparr>timestamp := g r\<rparr>) (attendance db)\<rparr>)
          = loadDashboardData (Some Faculty) tz now db
        \<and> snd (loadTodaySession tz now
            (db\<lparr>attendance := map (\<lambda>r. r\<lparr>timestamp := g r\<rparr>) (attendance db)\<rparr>))
          = snd (loadTodaySession tz now db))"
proof -
  have a: "statusAt tz now = Present \<longleftrightarrow> getHours tz now * 60 + getMinutes tz now \<le> 9 * 60 + 15"
    by (simp add: statusAt_minutes)
  have b: "statusAt tz now = Present \<longleftrightarrow> toLocal tz now mod msPerDay < (9 * 60 + 16) * 60000"
    using statusAt_Present_iff[of tz now] by simp
  have c: "statusAt tz now = Late \<longleftrightarrow> statusAt tz now \<noteq> Present"
    by (simp add: statusAt_minutes)
  have d: "totalClasses (studentStats clock (map (\<lambda>r. r\<lparr>timestamp := g r\<rparr>) records) s) =
       totalClasses (studentStats clock records s)"
    "present (studentStats clock (map (\<lambda>r. r\<lparr>timestamp := g r\<rparr>) records) s) =
       present (studentStats clock records s)"
    "late (studentStats clock (map (\<lambda>r. r\<lparr>timestamp := g r\<rparr>) records) s) =
       late (studentStats clock records s)"
    "absent (studentStats clock (map (\<lambda>r. r\<lparr>timestamp := g r\<rparr>) records) s) =
       absent (studentStats clock records s)"
    "attendancePercentage (studentStats clock (map (\<lambda>r. r\<lparr>timestamp := g r\<rparr>) records) s) =
       attendancePercentage (studentStats clock records s)"
    by (simp_all add: studentStats_def Let_def recordsOf_retimed filter_map comp_def)
  have e: "(\<forall>r \<in> set (attendance db). localDay tz (g r) = localDay tz (timestamp r)) \<longrightarrow>
        loadDashboardData (Some Faculty) tz now
            (db\<lparr>attendance := map (\<lambda>r. r\<lparr>timestamp := g r\<rparr>) (attendance db)\<rparr>)
          = loadDashboardData (Some Faculty) tz now db
        \<and> snd (loadTodaySession tz now
            (db\<lparr>attendance := map (\<lambda>r. r\<lparr>timestamp := g r\<rparr>) (attendance db)\<rparr>))
          = snd (loadTodaySession tz now db)"
    by (intro impI conjI summaries_retimed)
  show ?thesis
    by (intro conjI a b c d e captureAndRecognize_store)
qed

theorem status_fixed_at_creation_witness:
  "list_all (\<lambda>r. localDay utc (timestamp r + 1000) = localDay utc (timestamp r)) (attendance exampleDb)
   \<and> loadDashboardData (Some Faculty) utc exampleNow
         (exampleDb\<lparr>attendance := map (\<lambda>r. r\<lparr>timestamp := timestamp r + 1000\<rparr>)
                                  (attendance exampleDb)\<rparr>)
       = loadDashboardData (Some Faculty) utc exampleNow exampleDb
   \<and> snd (loadTodaySession utc exampleNow
         (exampleDb\<lparr>attendance := map (\<lambda>r. r\<lparr>timestamp := timestamp r + 1000\<rparr>)
                                  (attendance exampleDb)\<rparr>))
       = snd (loadTodaySession utc exampleNow exampleDb)"
proof -
  have h: "\<forall>r \<in> set (attendance exampleDb).
             localDay utc (timestamp r + 1000) = localDay utc (timestamp r)"
    by (simp add: exampleDb_def entry_def zone_simps msPerDay_def)
  note t = status_fixed_at_creation [where tz = utc and now = exampleNow and db = exampleDb
      and g = "\<lambda>r. timestamp r + 1000" and newId = "''n1''" and env = "cameraEnv True"
      and prev = noResult
      and clock = 0 and records = "[]" and s = studentA]
  note t' = t[THEN conjunct2, THEN conjunct2, THEN conjunct2, THEN conjunct2, THEN conjunct2,
      THEN conjunct2, THEN conjunct2, THEN conjunct2, THEN conjunct2, THEN mp, OF h]
  show ?thesis
    using h t' by (simp add: list_all_iff)
qed

text \<open>
  Claim C2 (as stated).  An observation at 09:15:30 is after 09:15, and its status is
  Present.
\<close>

theorem status_fixed_at_creation_counterexample:
  "statusAt utc quarterPastAndHalfMinute = Present
   \<and> (9 * 60 + 15) * 60000 < toLocal utc quarterPastAndHalfMinute mod msPerDay"
  by (simp add: statusAt_def quarterPastAndHalfMinute_def getHours_def getMinutes_def
      msPerDay_def zone_simps)

section \<open>The daily summaries\<close>

lemma status_partition:
  "length (filter (\<lambda>d. statusT d = Present) data) + length (filter (\<lambda>d. statusT d = Late) data)
     + length (filter (\<lambda>d. statusT d = Absent) data) = length data"
proof (induction data)
  case Nil
  then show ?case by simp
next
  case (Cons d data)
  then show ?case by (cases "statusT d") simp_all
qed

lemma length_sessionStudents:
  "length (sessionStudents tz now db) = length (filter (\<lambda>s. role s = RoleStudent) (getStudents db))"
  by (simp add: sessionStudents_def Let_def)

lemmas example_simps =
  loadTodaySession_def sessionStudents_def calculateStats_def
  attendanceMapOf_def sessionStudent_def exampleNow_def exampleDb_def getStudents_def
  getTodayAttendance_def getAttendanceRecords_def zone_simps msPerDay_def entry_def
  studentA_def studentB_def studentC_def loadDashboardData_def

lemma example_session: "snd (loadTodaySession utc exampleNow exampleDb) =
   \<lparr> total = 3, recognized = 2, notRecognized = 1, presentS = 1, lateS = 1, absentS = 1,
     recognitionRate = 200 / 3, attendanceRate = 200 / 3 \<rparr>"
  by (simp add: example_simps)

lemma example_dashboard: "loadDashboardData (Some Faculty) utc exampleNow exampleDb =
   \<lparr> totalStudents = 3, presentToday = 1, lateToday = 1, absentToday = 1,
     attendanceRateD = 100 / 3 \<rparr>"
  by (simp add: example_simps)

text \<open>
  Claim C1 (amended).  In today's session summary (\<open>calculateStats\<close> over the session
  data, one line per registered student) the attendance rate is (present + late) divided
  by the number of people, as a percentage, and 0 when there are no people; for people A,
  B, C with one Present and one Late entry today it is 2/3.  On the dashboard the rate
  counts the Present entries only: it is present divided by the number of people, as a
  percentage, 0 when there are no people, and 1/3 in the same example.
\<close>

theorem attendance_rate_of_summaries:
  "total (calculateStats sessionData) = length sessionData
   \<and> presentS (calculateStats sessionData) = length (filter (\<lambda>d. statusT d = Present) sessionData)
   \<and> lateS (calculateStats sessionData) = length (filter (\<lambda>d. statusT d = Late) sessionData)
   \<and> attendanceRate (calculateStats sessionData) =
       (if sessionData = [] then 0
        else real (presentS (calculateStats sessionData) + lateS (calculateStats sessionData))
               / real (length sessionData) * 100)
   \<and> snd (loadTodaySession tz now db) = calculateStats (sessionStudents tz now db)
   \<and> length (sessionStudents tz now db) =
       length (filter (\<lambda>s. role s = RoleStudent) (getStudents db))
   \<and> map studentT (sessionStudents tz now db) = filter (\<lambda>s. role s = RoleStudent) (getStudents db)
   \<and> presentToday (loadDashboardData (Some Faculty) tz now db) =
       length (filter (\<lambda>r. status r = Present) (getTodayAttendance tz now db))
   \<and> attendanceRateD (loadDashboardData (Some Faculty) tz now db) =
       (if getStudents db = [] then 0
        else real (presentToday (loadDashboardData (Some Faculty) tz now db))
               / real (length (getStudents db)) * 100)
   \<and> presentS (snd (loadTodaySession utc exampleNow exampleDb)) = 1
   \<and> lateS (snd (loadTodaySession utc exampleNow exampleDb)) = 1
   \<and> absentS (snd (loadTodaySession utc exampleNow exampleDb)) = 1
   \<and> attendanceRate (snd (loadTodaySession utc exampleNow exampleDb)) = 2 / 3 * 100
   \<and> attendanceRateD (loadDashboardData (Some Faculty) utc exampleNow exampleDb) = 1 / 3 * 100"
proof -
  have cs: "total (calculateStats sessionData) = length sessionData
   \<and> presentS (calculateStats sessionData) = length (filter (\<lambda>d. statusT d = Present) sessionData)
   \<and> lateS (calculateStats sessionData) = length (filter (\<lambda>d. statusT d = Late) sessionData)
   \<and> attendanceRate (calculateStats sessionData) =
       (if sessionData = [] then 0
        else real (presentS (calculateStats sessionData) + lateS (calculateStats sessionData))
               / real (length sessionData) * 100)"
    by (simp add: calculateStats_def Let_def)
  have ls: "snd (loadTodaySession tz now db) = calculateStats (sessionStudents tz now db)"
    by (simp add: loadTodaySession_def Let_def)
  have ms: "map studentT (sessionStudents tz now db) =
       filter (\<lambda>s. role s = RoleStudent) (getStudents db)"
    by (simp add: sessionStudents_def Let_def sessionStudent_def comp_def map_idI
        split: option.splits)
  have dd: "presentToday (loadDashboardData (Some Faculty) tz now db) =
       length (filter (\<lambda>r. status r = Present) (getTodayAttendance tz now db))
   \<and> attendanceRateD (loadDashboardData (Some Faculty) tz now db) =
       (if getStudents db = [] then 0
        else real (presentToday (loadDashboardData (Some Faculty) tz now db))
               / real (length (getStudents db)) * 100)"
    by (simp add: loadDashboardData_def Let_def)
  have ex: "presentS (snd (loadTodaySession utc exampleNow exampleDb)) = 1
   \<and> lateS (snd (loadTodaySession utc exampleNow exampleDb)) = 1
   \<and> absentS (snd (loadTodaySession utc exampleNow exampleDb)) = 1
   \<and> attendanceRate (snd (loadTodaySession utc exampleNow exampleDb)) = 2 / 3 * 100
   \<and> attendanceRateD (loadDashboardData (Some Faculty) utc exampleNow exampleDb) = 1 / 3 * 100"
    by (simp add: example_session example_dashboard)
  show ?thesis
    using cs ls ms dd ex length_sessionStudents[of tz now db] by blast
qed

text \<open>
  Claim C1 (as stated).  With people A, B, C, one Present and one Late entry today, the
  dashboard's rate is not (present + late) / 3.
\<close>

theorem attendance_rate_of_summaries_counterexample:
  "totalStudents (loadDashboardData (Some Faculty) utc exampleNow exampleDb) = 3
   \<and> presentToday (loadDashboardData (Some Faculty) utc exampleNow exampleDb) = 1
   \<and> lateToday (loadDashboardData (Some Faculty) utc exampleNow exampleDb) = 1
   \<and> attendanceRateD (loadDashboardData (Some Faculty) utc exampleNow exampleDb) \<noteq>
       real (presentToday (loadDashboardData (Some Faculty) utc exampleNow exampleDb)
             + lateToday (loadDashboardData (Some Faculty) utc exampleNow exampleDb))
         / real (totalStudents (loadDashboardData (Some Faculty) utc exampleNow exampleDb)) * 100"
  by (simp add: example_dashboard)

lemma count_members:
  assumes "distinct (map f xs)" and "distinct ys" and "set ys \<subseteq> f ` set xs"
  shows "length (filter (\<lambda>x. f x \<in> set ys) xs) = length ys"
proof -
  have "length (filter (\<lambda>x. f x \<in> set ys) xs) = length (filter (\<lambda>y. y \<in> set ys) (map f xs))"
    by (simp add: filter_map comp_def)
  also have "\<dots> = card ({y. y \<in> set ys} \<inter> set (map f xs))"
    using assms(1) by (rule distinct_length_filter)
  also have "{y. y \<in> set ys} \<inter> set (map f xs) = set ys"
    using assms(3) by auto
  also have "card (set ys) = length ys"
    using assms(2) by (rule distinct_card)
  finally show ?thesis .
qed

lemma count_non_members:
  assumes "distinct (map f xs)" and "distinct ys" and "set ys \<subseteq> f ` set xs"
  shows "int (length (filter (\<lambda>x. f x \<notin> set ys) xs)) = int (length xs) - int (length ys)"
  using count_members[OF assms] sum_length_filter_compl[of "\<lambda>x. f x \<in> set ys" xs]
  by simp

lemma present_late_count:
  "length (filter (\<lambda>r. status r = Present) rs) + length (filter (\<lambda>r. status r = Late) rs)
     = length (filter (\<lambda>r. status r = Present \<or> status r = Late) rs)"
  by (induction rs) auto

lemma no_entry_session_absent:
  "filter (\<lambda>r. studentId r = idS s) today = [] \<Longrightarrow>
     sessionStudent (attendanceMapOf today) s =
       \<lparr> studentT = s, statusT = Absent, markedBy = NoMark, timestampT = None,
         confidenceT = None \<rparr>"
  by (simp add: sessionStudent_def attendanceMapOf_last)

text \<open>
  What the two daily summaries do return.  When the day has no attendance entries, both
  return present = 0, late = 0, absent = the number of people and rate = 0.  In today's
  session summary a person with no entry for the day is counted as Absent.  On the
  dashboard the absent count is the number of people minus the day's Present and Late
  entries, which is the number of people with no Present or Late entry when those entries
  belong to distinct registered people.
\<close>

theorem no_entries_all_absent:
  "(getTodayAttendance tz now db = [] \<longrightarrow>
      presentS (snd (loadTodaySession tz now db)) = 0
      \<and> lateS (snd (loadTodaySession tz now db)) = 0
      \<and> absentS (snd (loadTodaySession tz now db)) =
          length (filter (\<lambda>s. role s = RoleStudent) (getStudents db))
      \<and> attendanceRate (snd (loadTodaySession tz now db)) = 0
      \<and> presentToday (loadDashboardData (Some Faculty) tz now db) = 0
      \<and> lateToday (loadDashboardData (Some Faculty) tz now db) = 0
      \<and> absentToday (loadDashboardData (Some Faculty) tz now db) = int (length (getStudents db))
      \<and> attendanceRateD (loadDashboardData (Some Faculty) tz now db) = 0)
   \<and> (filter (\<lambda>r. studentId r = idS s) (getTodayAttendance tz now db) = [] \<longrightarrow>
        sessionStudent (attendanceMapOf (getTodayAttendance tz now db)) s =
          \<lparr> studentT = s, statusT = Absent, markedBy = NoMark, timestampT = None,
            confidenceT = None \<rparr>)
   \<and> fst (loadTodaySession tz now db) =
       map (sessionStudent (attendanceMapOf (getTodayAttendance tz now db)))
         (filter (\<lambda>s. role s = RoleStudent) (getStudents db))
   \<and> absentS (snd (loadTodaySession tz now db)) =
       length (filter (\<lambda>d. statusT d = Absent) (fst (loadTodaySession tz now db)))
   \<and> absentToday (loadDashboardData (Some Faculty) tz now db) =
       int (length (getStudents db))
         - (int (presentToday (loadDashboardData (Some Faculty) tz now db))
            + int (lateToday (loadDashboardData (Some Faculty) tz now db)))
   \<and> (distinct (map idS (getStudents db))
       \<and> distinct (map studentId
            (filter (\<lambda>r. status r = Present \<or> status r = Late) (getTodayAttendance tz now db)))
       \<and> studentId ` set (filter (\<lambda>r. status r = Present \<or> status r = Late)
            (getTodayAttendance tz now db)) \<subseteq> idS ` set (getStudents db) \<longrightarrow>
        absentToday (loadDashboardData (Some Faculty) tz now db) =
          int (length (filter
                (\<lambda>s. idS s \<notin> studentId ` set (filter (\<lambda>r. status r = Present \<or> status r = Late)
                                (getTodayAttendance tz now db)))
                (getStudents db))))"
proof -
  let ?today = "getTodayAttendance tz now db"
  let ?pl = "filter (\<lambda>r. status r = Present \<or> status r = Late) ?today"
  have f: "fst (loadTodaySession tz now db) =
       map (sessionStudent (attendanceMapOf ?today))
         (filter (\<lambda>s. role s = RoleStudent) (getStudents db))"
    by (simp add: loadTodaySession_def sessionStudents_def Let_def)
  have a: "absentS (snd (loadTodaySession tz now db)) =
       length (filter (\<lambda>d. statusT d = Absent) (fst (loadTodaySession tz now db)))"
    by (simp add: loadTodaySession_def calculateStats_def Let_def)
  have e1: "?today = [] \<longrightarrow>
      presentS (snd (loadTodaySession tz now db)) = 0
      \<and> lateS (snd (loadTodaySession tz now db)) = 0
      \<and> absentS (snd (loadTodaySession tz now db)) =
          length (filter (\<lambda>s. role s = RoleStudent) (getStudents db))
      \<and> attendanceRate (snd (loadTodaySession tz now db)) = 0"
    by (simp add: loadTodaySession_def sessionStudents_def calculateStats_def Let_def
        attendanceMapOf_def sessionStudent_def comp_def)
  have e2: "?today = [] \<longrightarrow>
      presentToday (loadDashboardData (Some Faculty) tz now db) = 0
      \<and> lateToday (loadDashboardData (Some Faculty) tz now db) = 0
      \<and> absentToday (loadDashboardData (Some Faculty) tz now db) = int (length (getStudents db))
      \<and> attendanceRateD (loadDashboardData (Some Faculty) tz now db) = 0"
    by (simp add: loadDashboardData_def Let_def)
  have d: "absentToday (loadDashboardData (Some Faculty) tz now db) =
       int (length (getStudents db))
         - (int (presentToday (loadDashboardData (Some Faculty) tz now db))
            + int (lateToday (loadDashboardData (Some Faculty) tz now db)))"
    by (simp add: loadDashboardData_def Let_def)
  have d2: "absentToday (loadDashboardData (Some Faculty) tz now db) =
       int (length (getStudents db)) - int (length ?pl)"
    using present_late_count[of ?today] by (simp add: loadDashboardData_def Let_def)
  have c: "distinct (map idS (getStudents db)) \<and> distinct (map studentId ?pl)
       \<and> studentId ` set ?pl \<subseteq> idS ` set (getStudents db) \<longrightarrow>
        absentToday (loadDashboardData (Some Faculty) tz now db) =
          int (length (filter (\<lambda>s. idS s \<notin> studentId ` set ?pl) (getStudents db)))"
    using count_non_members[of idS "getStudents db" "map studentId ?pl"] d2 by simp
  show ?thesis
    using f a e1 e2 d c no_entry_session_absent[of s ?today] by blast
qed

theorem no_entries_all_absent_witness:
  "getTodayAttendance utc 0 exampleDb = []
   \<and> presentS (snd (loadTodaySession utc 0 exampleDb)) = 0
   \<and> lateS (snd (loadTodaySession utc 0 exampleDb)) = 0
   \<and> absentS (snd (loadTodaySession utc 0 exampleDb)) = 3
   \<and> attendanceRate (snd (loadTodaySession utc 0 exampleDb)) = 0
   \<and> absentToday (loadDashboardData (Some Faculty) utc 0 exampleDb) = 3
   \<and> attendanceRateD (loadDashboardData (Some Faculty) utc 0 exampleDb) = 0
   \<and> filter (\<lambda>r. studentId r = idS studentC) (getTodayAttendance utc exampleNow exampleDb) = []
   \<and> statusT (sessionStudent (attendanceMapOf (getTodayAttendance utc exampleNow exampleDb))
         studentC) = Absent
   \<and> distinct (map idS (getStudents exampleDb))
   \<and> distinct (map studentId
        (filter (\<lambda>r. status r = Present \<or> status r = Late)
          (getTodayAttendance utc exampleNow exampleDb)))
   \<and> absentToday (loadDashboardData (Some Faculty) utc exampleNow exampleDb) = 1"
  using no_entries_all_absent [where tz = utc and now = 0 and db = exampleDb and s = studentC]
    no_entries_all_absent [where tz = utc and now = exampleNow and db = exampleDb and s = studentC]
  by (simp add: example_simps)

text \<open>
  Claim C9.  The claim holds for today's session summary and fails on the dashboard.
  Person A is registered and has no entry for the day; the day's only entry belongs to a
  person no longer registered.  The session summary counts A absent; the dashboard, which
  subtracts the day's entries from the number of people without matching them to people,
  counts nobody absent.  With two such entries its absent count is -1.
\<close>

theorem dashboard_absent_unjoined:
  "getStudents danglingDb = [studentA]
   \<and> filter (\<lambda>r. studentId r = idS studentA) (getTodayAttendance utc exampleNow danglingDb) = []
   \<and> map statusT (fst (loadTodaySession utc exampleNow danglingDb)) = [Absent]
   \<and> absentS (snd (loadTodaySession utc exampleNow danglingDb)) = 1
   \<and> absentToday (loadDashboardData (Some Faculty) utc exampleNow danglingDb) = 0
   \<and> getStudents danglingTwoDb = [studentA]
   \<and> absentS (snd (loadTodaySession utc exampleNow danglingTwoDb)) = 1
   \<and> absentToday (loadDashboardData (Some Faculty) utc exampleNow danglingTwoDb) = - 1"
  by (simp add: example_simps danglingDb_def danglingTwoDb_def)

section \<open>The weekly summary\<close>


































text \<open>
  Outside UTC the keys need not follow the local weeks.  Five and a half hours ahead of
  UTC, an entry of local Monday 10:00 and one of local Tuesday 02:00 lie in the same local
  week, beginning on the same local Sunday, and get two keys, the later entry the smaller
  one: the week start keeps the local time of day, and its UTC date is the Sunday for the
  first and the Saturday for the second.
\<close>

lemma one_local_week_two_keys:
  "sorted (map timestamp entriesOneLocalWeek)
   \<and> map (\<lambda>r. localDay halfPastFive (timestamp r) - getDay halfPastFive (timestamp r))
        entriesOneLocalWeek = [19995, 19995]
   \<and> map (weekKey halfPastFive) entriesOneLocalWeek = [19995, 19994]
   \<and> calculateWeeklyStats halfPastFive entriesOneLocalWeek =
       [(19994, \<lparr> presentW = 0, lateW = 1, absentW = 0, totalW = 1 \<rparr>),
        (19995, \<lparr> presentW = 1, lateW = 0, absentW = 0, totalW = 1 \<rparr>)]"
  by (simp add: calculateWeeklyStats_def sliceLast_def weekMapOf_def weekStep_def weekKey_def
      weekStart_def getDay_def zone_simps msPerDay_def countRecord_def emptyWeek_def
      entriesOneLocalWeek_def halfPastFive_def entry_def)

end
